theory Spec2Isabelle
  imports Complex_Main
begin

section \<open>Insertion-ordered maps (the JavaScript \<open>Map\<close>)\<close>

text \<open>
  A JavaScript \<open>Map\<close> iterates its keys in insertion order; \<open>set\<close> on a key that is
  already present replaces the value and keeps the key's position. It is modelled as an
  association list whose keys are pairwise distinct.
\<close>

type_synonym ('k, 'v) js_map = "('k \<times> 'v) list"

definition map_get :: "('k, 'v) js_map \<Rightarrow> 'k \<Rightarrow> 'v option" where
  "map_get m k = map_of m k"

fun map_set :: "('k, 'v) js_map \<Rightarrow> 'k \<Rightarrow> 'v \<Rightarrow> ('k, 'v) js_map" where
  "map_set [] k v = [(k, v)]"
| "map_set ((k', v') # m) k v =
     (if k' = k then (k, v) # m else (k', v') # map_set m k v)"

definition map_delete :: "('k, 'v) js_map \<Rightarrow> 'k \<Rightarrow> ('k, 'v) js_map" where
  "map_delete m k = filter (\<lambda>kv. fst kv \<noteq> k) m"

definition map_size :: "('k, 'v) js_map \<Rightarrow> int" where
  "map_size m = int (length m)"

definition map_keys :: "('k, 'v) js_map \<Rightarrow> 'k list" where
  "map_keys m = map fst m"

text \<open>\<open>m.keys().next().value\<close>: the first key, \<open>undefined\<close> on an empty map.\<close>

definition first_key :: "('k, 'v) js_map \<Rightarrow> 'k option" where
  "first_key m = (case m of [] \<Rightarrow> None | kv # _ \<Rightarrow> Some (fst kv))"

section \<open>The cache of \<open>utils/helpers.js\<close>\<close>

record 'v cache_item =
  data :: 'v
  timestamp :: int

definition CACHE_DURATION :: int where
  "CACHE_DURATION = 5 * 60 * 1000"

definition MAX_CACHE_SIZE :: int where
  "MAX_CACHE_SIZE = 50"

text \<open>
  \<open>cache.get(key)\<close>, with \<open>Date.now()\<close> passed as \<open>now\<close>. The result is the payload
  (\<open>None\<close> for JavaScript's \<open>null\<close>) and the store after the call.
\<close>

definition cache_get ::
  "int \<Rightarrow> 'k \<Rightarrow> ('k, 'v cache_item) js_map \<Rightarrow> 'v option \<times> ('k, 'v cache_item) js_map" where
  "cache_get now key store =
     (case map_get store key of
        None \<Rightarrow> (None, store)
      | Some item \<Rightarrow>
          if now - timestamp item > CACHE_DURATION
          then (None, map_delete store key)
          else (Some (data item), store))"

text \<open>
  The size-limited insertion shared by \<open>cache.set\<close> and
  \<open>RealYahooFinanceService.setCached\<close>: when the store already holds \<open>cap\<close> entries
  the first key in iteration order is deleted, then the entry is written.
  Deleting \<open>undefined\<close> (the first key of an empty map) changes nothing.
\<close>

definition capped_set ::
  "int \<Rightarrow> int \<Rightarrow> 'k \<Rightarrow> 'v \<Rightarrow> ('k, 'v cache_item) js_map \<Rightarrow> ('k, 'v cache_item) js_map" where
  "capped_set cap now key d store =
     (let store1 =
        (if map_size store \<ge> cap
         then (case first_key store of None \<Rightarrow> store | Some firstKey \<Rightarrow> map_delete store firstKey)
         else store)
      in map_set store1 key \<lparr>data = d, timestamp = now\<rparr>)"

definition cache_set ::
  "int \<Rightarrow> 'k \<Rightarrow> 'v \<Rightarrow> ('k, 'v cache_item) js_map \<Rightarrow> ('k, 'v cache_item) js_map" where
  "cache_set now key d store = capped_set MAX_CACHE_SIZE now key d store"

definition cache_clear :: "('k, 'v cache_item) js_map \<Rightarrow> ('k, 'v cache_item) js_map" where
  "cache_clear store = []"

section \<open>The per-service caches\<close>

text \<open>\<open>RealYahooFinanceService\<close>: \<open>config.maxCacheSize = 50\<close>, \<open>config.cacheTimeout\<close> 5 minutes.\<close>

definition yahoo_maxCacheSize :: int where
  "yahoo_maxCacheSize = 50"

definition yahoo_setCached ::
  "int \<Rightarrow> 'k \<Rightarrow> 'v \<Rightarrow> ('k, 'v cache_item) js_map \<Rightarrow> ('k, 'v cache_item) js_map" where
  "yahoo_setCached now key d store = capped_set yahoo_maxCacheSize now key d store"

text \<open>
  \<open>RealTimeGainersService.setCached\<close> and \<open>SimpleCorsService.setCached\<close> write the
  entry and nothing else.
\<close>

definition realtime_setCached ::
  "int \<Rightarrow> 'k \<Rightarrow> 'v \<Rightarrow> ('k, 'v cache_item) js_map \<Rightarrow> ('k, 'v cache_item) js_map" where
  "realtime_setCached now key d store = map_set store key \<lparr>data = d, timestamp = now\<rparr>"

definition simplecors_setCached ::
  "int \<Rightarrow> 'k \<Rightarrow> 'v \<Rightarrow> ('k, 'v cache_item) js_map \<Rightarrow> ('k, 'v cache_item) js_map" where
  "simplecors_setCached now key d store = map_set store key \<lparr>data = d, timestamp = now\<rparr>"

text \<open>
  A run of insertions, each a triple of key, payload and the clock reading at the call,
  applied in order.
\<close>

definition set_all ::
  "(int \<Rightarrow> 'k \<Rightarrow> 'v \<Rightarrow> ('k, 'v cache_item) js_map \<Rightarrow> ('k, 'v cache_item) js_map) \<Rightarrow>
   ('k \<times> 'v \<times> int) list \<Rightarrow> ('k, 'v cache_item) js_map \<Rightarrow> ('k, 'v cache_item) js_map" where
  "set_all setter ins store = fold (\<lambda>(k, d, t) s. setter t k d s) ins store"

section \<open>JavaScript values and strings\<close>

text \<open>
  Numbers are modelled as real numbers: sums, products and square roots are exact where
  the program rounds to a double, \<open>NaN\<close> is a value of its own, and the infinities are
  not modelled. Text is a list of characters; \<open>toLowerCase\<close> and the whitespace class
  cover ASCII.

  A field taken from a provider's JSON whose schema makes it text is a \<open>jstr\<close> (text,
  or absent as \<open>undefined\<close> or \<open>null\<close>); a field the code inspects dynamically is a
  \<open>jsval\<close>.
\<close>

datatype jstr = Undefined | Null | Str string

datatype jsval = JUndefined | JNull | JNaN | JNum real | JStr string

datatype js_error = TypeError string | Error string

fun truthy :: "jsval \<Rightarrow> bool" where
  "truthy JUndefined = False"
| "truthy JNull = False"
| "truthy JNaN = False"
| "truthy (JNum r) = (r \<noteq> 0)"
| "truthy (JStr s) = (s \<noteq> [])"

text \<open>\<open>`${x}`\<close> and \<open>x + ' '\<close> for a text field.\<close>

fun template :: "jstr \<Rightarrow> string" where
  "template Undefined = ''undefined''"
| "template Null = ''null''"
| "template (Str s) = s"

text \<open>\<open>x || ''\<close> for a text field.\<close>

fun or_empty :: "jstr \<Rightarrow> string" where
  "or_empty (Str s) = s"
| "or_empty _ = []"

definition toLowerCase_char :: "char \<Rightarrow> char" where
  "toLowerCase_char c =
     (case map_of (zip ''ABCDEFGHIJKLMNOPQRSTUVWXYZ'' ''abcdefghijklmnopqrstuvwxyz'') c of
        Some l \<Rightarrow> l
      | None \<Rightarrow> c)"

definition toLowerCase :: "string \<Rightarrow> string" where
  "toLowerCase s = map toLowerCase_char s"

definition substring :: "string \<Rightarrow> nat \<Rightarrow> nat \<Rightarrow> string" where
  "substring s i j = take (j - i) (drop i s)"

fun startsWith :: "string \<Rightarrow> string \<Rightarrow> bool" where
  "startsWith s [] = True"
| "startsWith [] (p # ps) = False"
| "startsWith (c # cs) (p # ps) = (c = p \<and> startsWith cs ps)"

fun includes_str :: "string \<Rightarrow> string \<Rightarrow> bool" where
  "includes_str [] sub = (sub = [])"
| "includes_str (c # cs) sub = (startsWith (c # cs) sub \<or> includes_str cs sub)"

text \<open>\<open>s.replace(pat, rep)\<close> with a string pattern: the first occurrence only.\<close>

fun replace :: "string \<Rightarrow> string \<Rightarrow> string \<Rightarrow> string" where
  "replace [] pat rep = (if pat = [] then rep else [])"
| "replace (c # cs) pat rep =
     (if startsWith (c # cs) pat then rep @ drop (length pat) (c # cs)
      else c # replace cs pat rep)"

definition is_space :: "char \<Rightarrow> bool" where
  "is_space c = (c \<in> set [CHR '' '', CHR 0x09, CHR 0x0A, CHR 0x0B, CHR 0x0C, CHR 0x0D])"

definition is_digit :: "char \<Rightarrow> bool" where
  "is_digit c = (c \<in> set ''0123456789'')"

text \<open>
  \<open>s.split(/\s+/)\<close>: the pieces between maximal runs of whitespace; leading or trailing
  whitespace gives an empty first or last piece, and the empty string gives one empty
  piece.
\<close>

fun split_ws :: "string \<Rightarrow> string \<Rightarrow> bool \<Rightarrow> string list" where
  "split_ws [] cur in_sep = [rev cur]"
| "split_ws (c # cs) cur in_sep =
     (if is_space c
      then (if in_sep then split_ws cs cur True else rev cur # split_ws cs [] True)
      else split_ws cs (c # cur) False)"

definition splitWhitespace :: "string \<Rightarrow> string list" where
  "splitWhitespace s = split_ws s [] False"

text \<open>\<open>s.replace(/[^\d.]/g, '')\<close>: keep digits and dots.\<close>

definition keepDigitsAndDots :: "string \<Rightarrow> string" where
  "keepDigitsAndDots s = filter (\<lambda>c. is_digit c \<or> c = CHR ''.'') s"

definition digit_val :: "char \<Rightarrow> nat" where
  "digit_val c =
     (case map_of (zip ''0123456789'' [0, 1, 2, 3, 4, 5, 6, 7, 8, 9]) c of
        Some d \<Rightarrow> d
      | None \<Rightarrow> 0)"

definition digits_val :: "string \<Rightarrow> nat" where
  "digits_val ds = foldl (\<lambda>acc c. acc * 10 + digit_val c) 0 ds"

text \<open>
  \<open>parseFloat\<close> on a string: leading whitespace, an optional sign, digits with an
  optional fraction, an optional exponent; the longest such prefix is read and the rest
  ignored. \<open>None\<close> is \<open>NaN\<close>. The literal \<open>Infinity\<close> and rounding to a double are not
  modelled.
\<close>

definition parse_sign :: "string \<Rightarrow> bool \<times> string" where
  "parse_sign t =
     (case t of
        [] \<Rightarrow> (False, t)
      | c # r \<Rightarrow> if c = CHR ''-'' then (True, r) else if c = CHR ''+'' then (False, r) else (False, t))"

definition parse_fraction :: "string \<Rightarrow> string \<times> string" where
  "parse_fraction r1 =
     (case r1 of
        [] \<Rightarrow> ([], r1)
      | c # r \<Rightarrow> if c = CHR ''.'' then (takeWhile is_digit r, dropWhile is_digit r) else ([], r1))"

definition parse_exponent :: "string \<Rightarrow> (bool \<times> nat) option" where
  "parse_exponent r2 =
     (case r2 of
        [] \<Rightarrow> None
      | c # r \<Rightarrow>
          if c = CHR ''e'' \<or> c = CHR ''E''
          then (let (neg, ds) = parse_sign r; e = takeWhile is_digit ds
                in if e = [] then None else Some (neg, digits_val e))
          else None)"

definition parseFloat :: "string \<Rightarrow> real option" where
  "parseFloat s =
     (let (neg, u) = parse_sign (dropWhile is_space s);
          ip = takeWhile is_digit u;
          (fp, r2) = parse_fraction (dropWhile is_digit u)
      in if ip = [] \<and> fp = [] then None
         else
           (let m = real (digits_val ip) + real (digits_val fp) / 10 ^ length fp;
                v = (case parse_exponent r2 of
                       None \<Rightarrow> m
                     | Some (eneg, e) \<Rightarrow> if eneg then m / 10 ^ e else m * 10 ^ e)
            in Some (if neg then - v else v)))"

text \<open>Comparisons with a number that may be \<open>NaN\<close>: every comparison with \<open>NaN\<close> is false.\<close>

definition num_ge :: "real option \<Rightarrow> real \<Rightarrow> bool" where
  "num_ge x c = (case x of None \<Rightarrow> False | Some v \<Rightarrow> v \<ge> c)"

definition num_gt :: "real option \<Rightarrow> real \<Rightarrow> bool" where
  "num_gt x c = (case x of None \<Rightarrow> False | Some v \<Rightarrow> v > c)"

fun show_digits :: "nat \<Rightarrow> nat \<Rightarrow> string" where
  "show_digits 0 n = []"
| "show_digits (Suc fuel) n =
     (if n < 10 then [''0123456789'' ! n]
      else show_digits fuel (n div 10) @ [''0123456789'' ! (n mod 10)])"

text \<open>\<open>String(n)\<close> for a non-negative integer: a number has at most \<open>n + 1\<close> digits.\<close>

definition show_nat :: "nat \<Rightarrow> string" where
  "show_nat n = show_digits (Suc n) n"

section \<open>\<open>EnhancedNewsService\<close> (\<open>services/newsApi.js\<close>)\<close>

subsection \<open>Records\<close>

text \<open>
  The normalised article. \<open>publishedAt\<close> holds the instant the code's date string
  denotes, in milliseconds. The optional fields some adapters add (\<open>imageUrl\<close>,
  \<open>highlights\<close>, \<open>topics\<close>, \<open>relevanceScore\<close>) are read by none of the functions
  below and are left out.
\<close>

record article =
  article_id :: jsval
  title :: jstr
  description :: string
  source :: jstr
  publishedAt :: int
  url :: jsval
  sentiment :: jsval
  category :: string
  confidence :: jsval

record source_entry =
  name :: string
  status :: string
  count :: "nat option"
  error :: "string option"

record overall_sentiment =
  score :: real
  label :: string
  confidence :: real
  positive :: nat
  neutral :: nat
  negative :: nat

record news_result =
  symbol :: string
  articles :: "article list"
  sources :: "source_entry list"
  errors :: "string list"
  sentiment :: "overall_sentiment option"
  timestamp :: int

subsection \<open>Text sentiment\<close>

definition positiveWords :: "string list" where
  "positiveWords =
     [''beat'', ''strong'', ''growth'', ''profit'', ''gain'', ''rise'', ''up'', ''positive'',
      ''good'', ''success'', ''win'', ''boost'', ''improve'', ''bullish'', ''upgrade'',
      ''buy'', ''outperform'', ''exceed'', ''higher'', ''increase'', ''rally'', ''surge'']"

definition negativeWords :: "string list" where
  "negativeWords =
     [''miss'', ''weak'', ''loss'', ''fall'', ''down'', ''negative'', ''bad'', ''fail'',
      ''drop'', ''decline'', ''bearish'', ''concern'', ''risk'', ''downgrade'', ''sell'',
      ''underperform'', ''lower'', ''decrease'', ''crash'', ''plunge'', ''warning'']"

text \<open>The body of the \<open>forEach\<close>: the running \<open>score\<close> and \<open>wordCount\<close> after one word.\<close>

definition score_word :: "real \<times> nat \<Rightarrow> string \<Rightarrow> real \<times> nat" where
  "score_word acc word =
     (let acc1 = (if list_ex (\<lambda>pos. includes_str word pos) positiveWords
                  then (fst acc + 0.1, snd acc + 1) else acc)
      in if list_ex (\<lambda>neg. includes_str word neg) negativeWords
         then (fst acc1 - 0.1, snd acc1 + 1) else acc1)"

definition calculateSentiment :: "string \<Rightarrow> real" where
  "calculateSentiment text =
     (if text = [] then 0
      else
        (let words = splitWhitespace (toLowerCase text);
             acc = foldl score_word (0, 0) words;
             score = (if snd acc > 0 then fst acc / sqrt (real (snd acc)) else fst acc)
         in max (- 1) (min 1 score)))"

text \<open>
  \<open>categorizeNews\<close>: each regular expression is a set of alternatives searched
  anywhere in the lower-cased title; \<open>q[1-4]\<close> is written out.
\<close>

definition matches_any :: "string \<Rightarrow> string list \<Rightarrow> bool" where
  "matches_any s alts = list_ex (\<lambda>alt. includes_str s alt) alts"

definition categorizeNews :: "jstr \<Rightarrow> string" where
  "categorizeNews t =
     (if or_empty t = [] then ''corporate''
      else
        (let titleLower = toLowerCase (or_empty t) in
         if matches_any titleLower
              [''earnings'', ''revenue'', ''profit'', ''quarter'', ''q1'', ''q2'', ''q3'', ''q4'', ''fiscal'']
         then ''earnings''
         else if matches_any titleLower
              [''analyst'', ''upgrade'', ''downgrade'', ''target'', ''rating'', ''recommendation'']
         then ''analyst''
         else if matches_any titleLower
              [''merger'', ''acquisition'', ''partnership'', ''deal'', ''joint venture'']
         then ''partnership''
         else if matches_any titleLower
              [''regulatory'', ''sec'', ''investigation'', ''lawsuit'', ''compliance'', ''fine'']
         then ''regulatory''
         else if matches_any titleLower
              [''market'', ''trading'', ''volatility'', ''stock'', ''shares'', ''price'']
         then ''market''
         else if matches_any titleLower
              [''product'', ''launch'', ''innovation'', ''technology'', ''patent'']
         then ''product''
         else if matches_any titleLower
              [''management'', ''ceo'', ''executive'', ''leadership'', ''appointment'']
         then ''management''
         else ''corporate''))"




subsection \<open>Deduplication\<close>

text \<open>
  The key of \<open>deduplicateArticles\<close>:
  \<open>`${article.title?.toLowerCase().substring(0, 50)}_${article.source}`\<close>.
  For an absent title the optional chain gives \<open>undefined\<close>.
\<close>

definition normalizedTitle :: "article \<Rightarrow> string" where
  "normalizedTitle a =
     (case article.title a of
        Str t \<Rightarrow> substring (toLowerCase t) 0 50
      | _ \<Rightarrow> ''undefined'')"

definition dedup_key :: "article \<Rightarrow> string" where
  "dedup_key a = normalizedTitle a @ ''_'' @ template (article.source a)"

text \<open>The \<open>filter\<close> callback with its set \<open>seen\<close> threaded through.\<close>

fun dedup_from :: "string set \<Rightarrow> article list \<Rightarrow> article list" where
  "dedup_from seen [] = []"
| "dedup_from seen (a # as) =
     (if dedup_key a \<in> seen then dedup_from seen as
      else a # dedup_from (insert (dedup_key a) seen) as)"

definition deduplicateArticles :: "article list \<Rightarrow> article list" where
  "deduplicateArticles as = dedup_from {} as"

subsection \<open>Mock news\<close>




subsection \<open>Source adapters\<close>


record marketaux_raw =
  uuid :: jsval
  title :: jstr
  description :: jstr
  snippet :: jstr
  source :: jstr
  published_at :: int
  url :: jsval
  sentiment_score :: jsval
  match_score :: jsval

record finnhub_raw =
  id_field :: jsval
  headline :: jstr
  summary :: jstr
  source :: jstr
  datetime :: "int option"
  url :: jsval

record stocknews_raw =
  news_url :: jsval
  title :: jstr
  text_field :: jstr
  source_name :: jstr
  date :: int
  sentiment :: jsval

record alphavantage_raw =
  url :: jsval
  title :: jstr
  summary :: jstr
  source :: jstr
  time_published :: "int option"
  overall_sentiment_score :: jsval











text \<open>
  \<open>new Date(article.datetime * 1000).toISOString()\<close> throws a \<open>RangeError\<close> on an
  invalid date; the adapter rethrows it.
\<close>

definition finnhub_article :: "nat \<Rightarrow> finnhub_raw \<Rightarrow> string + article" where
  "finnhub_article index a =
     (case datetime a of
        None \<Rightarrow> Inl ''Invalid time value''
      | Some secs \<Rightarrow>
          Inr \<lparr>article_id = (if truthy (id_field a) then id_field a
                              else JStr (''finnhub_'' @ show_nat index)),
               article.title = headline a,
               article.description = or_empty (finnhub_raw.summary a),
               article.source = finnhub_raw.source a,
               article.publishedAt = secs * 1000,
               article.url = finnhub_raw.url a,
               article.sentiment = JNum (calculateSentiment
                                   (template (headline a) @ '' '' @ or_empty (finnhub_raw.summary a))),
               article.category = categorizeNews (headline a),
               article.confidence = JNum 85\<rparr>)"







subsection \<open>The aggregator\<close>








section \<open>The gainers services\<close>

subsection \<open>Ambient inputs\<close>

text \<open>
  One reading of the clock: \<open>Date.now()\<close>, the local \<open>getHours()\<close>, \<open>getMinutes()\<close>
  and \<open>getDay()\<close>, and the same three for the date converted to \<open>America/New_York\<close>.
  A function reads the clock once per call here, where the code may construct several
  \<open>Date\<close> objects in a row. \<open>Math.random()\<close> is a sequence of draws, each in \<open>[0, 1)\<close>.
\<close>

record clock =
  now_ms :: int
  hours :: nat
  minutes :: nat
  day :: nat
  et_hours :: nat
  et_minutes :: nat
  et_day :: nat

subsection \<open>Records\<close>

text \<open>A quote as \<open>analyzeBulkSentiment\<close> reads it: every field is inspected dynamically.\<close>

record stock =
  symbol :: jsval
  change :: jsval
  volume :: jsval
  sector :: jsval
  marketCap :: jsval
  source :: jsval

text \<open>
  An entry of the result map. Of \<open>factors\<close>, which otherwise copies inputs for display,
  only the \<open>error\<close> flag is kept.
\<close>

record sentiment_entry =
  score :: real
  label :: string
  confidence :: real
  lastUpdate :: int
  error_flag :: bool

text \<open>
  A quote as the generators and parsers build it. \<open>price\<close> and \<open>volume\<close> hold the
  numbers that the code renders with \<open>toFixed(2)\<close> and \<open>formatVolume\<close>; the rendered
  \<open>change\<close> and \<open>changeAmount\<close> are functions of \<open>price\<close> and \<open>changePercent\<close>.
\<close>

record quote =
  symbol :: string
  name :: string
  price :: real
  changePercent :: real
  volume :: real
  sector :: "string option"
  lastUpdate :: int
  source :: string

record base_stock =
  symbol :: string
  name :: string
  sector :: "string option"
  basePrice :: real
  baseChange :: real
  marketCap :: string

subsection \<open>Shared pieces\<close>

text \<open>The receiver of a string method: anything but a string throws a \<open>TypeError\<close>.\<close>

fun as_string :: "jsval \<Rightarrow> js_error + string" where
  "as_string (JStr s) = Inr s"
| "as_string JUndefined = Inl (TypeError ''Cannot read properties of undefined'')"
| "as_string JNull = Inl (TypeError ''Cannot read properties of null'')"
| "as_string _ = Inl (TypeError ''is not a function'')"

text \<open>\<open>parseFloat(stock.change.replace('%', '').replace('+', ''))\<close>.\<close>

definition parse_change :: "jsval \<Rightarrow> js_error + real option" where
  "parse_change c =
     (case as_string c of
        Inl e \<Rightarrow> Inl e
      | Inr s \<Rightarrow> Inr (parseFloat (replace (replace s ''%'' []) ''+'' [])))"

text \<open>The tail of every \<open>parseVolume\<close>, on a string.\<close>

definition volume_of_string :: "string \<Rightarrow> real option" where
  "volume_of_string s =
     (let num = parseFloat (keepDigitsAndDots s) in
      if includes_str s ''M'' then map_option (\<lambda>n. n * 1000000) num
      else if includes_str s ''K'' then map_option (\<lambda>n. n * 1000) num
      else num)"

text \<open>\<open>parseVolume\<close> of \<open>SimpleCorsService\<close> and \<open>RealYahooFinanceService\<close>.\<close>

definition parseVolume :: "jsval \<Rightarrow> js_error + real option" where
  "parseVolume v =
     (if \<not> truthy v then Inr (Some 0)
      else (case as_string v of Inl e \<Rightarrow> Inl e | Inr s \<Rightarrow> Inr (volume_of_string s)))"

text \<open>\<open>parseVolume\<close> of \<open>RealTimeGainersService\<close>.\<close>

definition realtime_parseVolume :: "jsval \<Rightarrow> js_error + real option" where
  "realtime_parseVolume v =
     (if \<not> truthy v \<or> v = JStr ''N/A'' then Inr (Some 0)
      else (case as_string v of Inl e \<Rightarrow> Inl e | Inr s \<Rightarrow> Inr (volume_of_string s)))"

text \<open>
  \<open>table[key] || 0\<close> on an object literal with the given own keys; a key that is not a
  string matches none of them. The properties every object inherits (a key such as
  \<open>constructor\<close>) are not modelled.
\<close>

definition bonus :: "(string \<times> real) list \<Rightarrow> jsval \<Rightarrow> real" where
  "bonus table key =
     (case key of
        JStr s \<Rightarrow> (case map_of table s of Some b \<Rightarrow> b | None \<Rightarrow> 0)
      | _ \<Rightarrow> 0)"

definition getSentimentLabel :: "real \<Rightarrow> string" where
  "getSentimentLabel s =
     (if s > 0.2 then ''Positive'' else if s < - 0.2 then ''Negative'' else ''Neutral'')"

text \<open>\<open>Math.min(1, Math.max(-1, s))\<close>.\<close>

definition ensure_bounds :: "real \<Rightarrow> real" where
  "ensure_bounds s = min 1 (max (- 1) s)"

definition scored_entry :: "real \<Rightarrow> int \<Rightarrow> sentiment_entry" where
  "scored_entry s now =
     \<lparr>score = s, label = getSentimentLabel s, confidence = \<bar>s\<bar> * 100,
      lastUpdate = now, error_flag = False\<rparr>"

text \<open>The entry written by each \<open>catch\<close> block, and by \<open>getDefaultSentiment\<close>.\<close>

definition default_entry :: "int \<Rightarrow> sentiment_entry" where
  "default_entry now =
     \<lparr>score = 0, label = ''Neutral'', confidence = 50, lastUpdate = now, error_flag = True\<rparr>"

text \<open>
  The \<open>for \<dots> of\<close> loop common to the three \<open>analyzeBulkSentiment\<close>: the \<open>i\<close>-th
  iteration runs the \<open>try\<close> body on the stock and stores its entry, or the default entry
  when the body throws, under \<open>stock.symbol\<close>.
\<close>

fun bulk_loop ::
  "(nat \<Rightarrow> stock \<Rightarrow> js_error + sentiment_entry) \<Rightarrow> (nat \<Rightarrow> sentiment_entry) \<Rightarrow>
   nat \<Rightarrow> stock list \<Rightarrow> (jsval, sentiment_entry) js_map \<Rightarrow> (jsval, sentiment_entry) js_map" where
  "bulk_loop body dflt i [] results = results"
| "bulk_loop body dflt i (s # ss) results =
     bulk_loop body dflt (Suc i) ss
       (map_set results (stock.symbol s)
          (case body i s of Inr e \<Rightarrow> e | Inl err \<Rightarrow> dflt i))"

subsection \<open>\<open>RealTimeGainersService\<close>\<close>

definition realtime_sourceBonus :: "(string \<times> real) list" where
  "realtime_sourceBonus =
     [(''yahoo_finance_realtime'', 0.1), (''cnbc_realtime'', 0.08),
      (''polygon_realtime'', 0.06), (''iex_realtime'', 0.05)]"

definition calculateRealTimeSentiment :: "stock \<Rightarrow> real option \<Rightarrow> js_error + real" where
  "calculateRealTimeSentiment s changePct =
     (let base = (if num_ge changePct 10 then 0.95
                  else if num_ge changePct 7 then 0.8
                  else if num_ge changePct 5 then 0.65
                  else if num_ge changePct 3 then 0.45
                  else if num_ge changePct 2 then 0.25
                  else if num_ge changePct 1 then 0.1
                  else 0)
      in case (if truthy (stock.volume s) \<and> stock.volume s \<noteq> JStr ''N/A''
               then (case realtime_parseVolume (stock.volume s) of
                       Inl e \<Rightarrow> Inl e
                     | Inr volumeNum \<Rightarrow>
                         Inr (if num_gt volumeNum 10000000 then base + 0.1
                              else if num_gt volumeNum 5000000 then base + 0.05
                              else base))
               else Inr base) of
           Inl e \<Rightarrow> Inl e
         | Inr sc \<Rightarrow> Inr (sc + bonus realtime_sourceBonus (stock.source s)))"

definition getRealTimeMarketContext :: "clock \<Rightarrow> real" where
  "getRealTimeMarketContext c =
     (let hour = et_hours c; minute = et_minutes c;
          isMarketHours = ((hour > 9 \<or> (hour = 9 \<and> minute \<ge> 30)) \<and> hour < 16);
          isMarketDay = (et_day c \<ge> 1 \<and> et_day c \<le> 5);
          contextScore = (if isMarketHours \<and> isMarketDay then 0.2
                          else if isMarketDay then 0.1 else - 0.1)
      in if isMarketHours
         then (if hour = 9 then contextScore + 0.1
               else if hour = 15 \<and> minute \<ge> 30 then contextScore + 0.15
               else if hour = 12 then contextScore - 0.05
               else contextScore)
         else contextScore)"

definition realtime_body :: "clock \<Rightarrow> stock \<Rightarrow> js_error + sentiment_entry" where
  "realtime_body c s =
     (case parse_change (stock.change s) of
        Inl e \<Rightarrow> Inl e
      | Inr changePct \<Rightarrow>
          (case calculateRealTimeSentiment s changePct of
             Inl e \<Rightarrow> Inl e
           | Inr sentimentScore \<Rightarrow>
               Inr (scored_entry
                      (ensure_bounds (sentimentScore * 0.85 + getRealTimeMarketContext c * 0.15))
                      (now_ms c))))"

definition realtime_analyzeBulkSentiment ::
  "(nat \<Rightarrow> clock) \<Rightarrow> stock list \<Rightarrow> (jsval, sentiment_entry) js_map" where
  "realtime_analyzeBulkSentiment clk stocks =
     bulk_loop (\<lambda>i. realtime_body (clk i)) (\<lambda>i. default_entry (now_ms (clk i))) 0 stocks []"

subsection \<open>\<open>SimpleCorsService\<close>\<close>

definition isMarketHours :: "clock \<Rightarrow> bool" where
  "isMarketHours c =
     ((et_hours c > 9 \<or> (et_hours c = 9 \<and> et_minutes c \<ge> 30)) \<and> et_hours c < 16)"

definition isMarketDay :: "clock \<Rightarrow> bool" where
  "isMarketDay c = (day c \<ge> 1 \<and> day c \<le> 5)"

definition simplecors_sectorBonus :: "(string \<times> real) list" where
  "simplecors_sectorBonus =
     [(''Technology'', 0.1), (''Semiconductors'', 0.08), (''Software'', 0.06),
      (''E-commerce'', 0.04), (''Fintech'', 0.02)]"

definition calculateAdvancedSentiment :: "stock \<Rightarrow> real option \<Rightarrow> js_error + real" where
  "calculateAdvancedSentiment s changePct =
     (let base = (if num_ge changePct 5 then 0.9
                  else if num_ge changePct 4 then 0.7
                  else if num_ge changePct 3 then 0.5
                  else if num_ge changePct 2 then 0.3
                  else if num_ge changePct 1 then 0.1
                  else 0)
      in case parseVolume (stock.volume s) of
           Inl e \<Rightarrow> Inl e
         | Inr volumeNum \<Rightarrow>
             (let sc = (if num_gt volumeNum 50000000 then base + 0.15
                        else if num_gt volumeNum 25000000 then base + 0.1
                        else if num_gt volumeNum 10000000 then base + 0.05
                        else base)
                       + bonus simplecors_sectorBonus (stock.sector s)
              in if truthy (stock.marketCap s)
                 then (case as_string (stock.marketCap s) of
                         Inl e \<Rightarrow> Inl e
                       | Inr cap \<Rightarrow> Inr (if includes_str cap ''T'' then sc * 0.9 else sc))
                 else Inr sc))"

definition getMarketSentimentContext :: "clock \<Rightarrow> real" where
  "getMarketSentimentContext c =
     (if isMarketHours c \<and> isMarketDay c then 0.1
      else if isMarketDay c then 0.05 else - 0.05)
     + sin (real (hours c) / 24 * pi * 2) * 0.1"

definition simplecors_body :: "clock \<Rightarrow> stock \<Rightarrow> js_error + sentiment_entry" where
  "simplecors_body c s =
     (case parse_change (stock.change s) of
        Inl e \<Rightarrow> Inl e
      | Inr changePct \<Rightarrow>
          (case calculateAdvancedSentiment s changePct of
             Inl e \<Rightarrow> Inl e
           | Inr sentimentScore \<Rightarrow>
               Inr (scored_entry
                      (ensure_bounds (sentimentScore * 0.8 + getMarketSentimentContext c * 0.2))
                      (now_ms c))))"

definition simplecors_analyzeBulkSentiment ::
  "(nat \<Rightarrow> clock) \<Rightarrow> stock list \<Rightarrow> (jsval, sentiment_entry) js_map" where
  "simplecors_analyzeBulkSentiment clk stocks =
     bulk_loop (\<lambda>i. simplecors_body (clk i)) (\<lambda>i. default_entry (now_ms (clk i))) 0 stocks []"

subsection \<open>\<open>RealYahooFinanceService\<close>\<close>

definition calculateSentimentScore :: "real option \<Rightarrow> stock \<Rightarrow> js_error + real" where
  "calculateSentimentScore changePct s =
     (let base = (if num_ge changePct 5 then 0.9
                  else if num_ge changePct 4 then 0.7
                  else if num_ge changePct 3 then 0.5
                  else if num_ge changePct 2 then 0.3
                  else if num_ge changePct 1 then 0.1
                  else 0)
      in case parseVolume (stock.volume s) of
           Inl e \<Rightarrow> Inl e
         | Inr volumeNum \<Rightarrow>
             (let sc = (if num_gt volumeNum 50000000 then base + 0.1
                        else if num_gt volumeNum 20000000 then base + 0.05
                        else base)
              in Inr (if stock.sector s = JStr ''Technology'' then sc + 0.05 else sc)))"

text \<open>\<open>getMarketSentiment\<close>, with its one draw of \<open>Math.random()\<close> passed as \<open>r\<close>.\<close>

definition getMarketSentiment :: "clock \<Rightarrow> real \<Rightarrow> real" where
  "getMarketSentiment c r =
     (if hours c \<ge> 9 \<and> hours c \<le> 16 then 0.1 else 0) + (r - 0.5) * 0.3"

definition yahoo_body :: "clock \<Rightarrow> real \<Rightarrow> stock \<Rightarrow> js_error + sentiment_entry" where
  "yahoo_body c r s =
     (case parse_change (stock.change s) of
        Inl e \<Rightarrow> Inl e
      | Inr changePct \<Rightarrow>
          (case calculateSentimentScore changePct s of
             Inl e \<Rightarrow> Inl e
           | Inr sentimentScore \<Rightarrow>
               Inr (scored_entry
                      (ensure_bounds (sentimentScore * 0.8 + getMarketSentiment c r * 0.2))
                      (now_ms c))))"

text \<open>
  The \<open>i\<close>-th iteration reads the clock \<open>clk i\<close> and, when it gets as far as
  \<open>getMarketSentiment\<close>, the draw \<open>rnd i\<close>.
\<close>

definition yahoo_analyzeBulkSentiment ::
  "(nat \<Rightarrow> clock) \<Rightarrow> (nat \<Rightarrow> real) \<Rightarrow> stock list \<Rightarrow> (jsval, sentiment_entry) js_map" where
  "yahoo_analyzeBulkSentiment clk rnd stocks =
     bulk_loop (\<lambda>i. yahoo_body (clk i) (rnd i)) (\<lambda>i. default_entry (now_ms (clk i))) 0 stocks []"

subsection \<open>Synthetic quotes of \<open>SimpleCorsService\<close>\<close>

definition simplecors_baseStocks :: "base_stock list" where
  "simplecors_baseStocks =
     [\<lparr>symbol = ''NVDA'', name = ''NVIDIA Corporation'', sector = Some ''Technology'', basePrice = 875.60, baseChange = 4.25, marketCap = ''2.1T''\<rparr>,
      \<lparr>symbol = ''AMD'', name = ''Advanced Micro Devices Inc.'', sector = Some ''Technology'', basePrice = 165.40, baseChange = 3.78, marketCap = ''267B''\<rparr>,
      \<lparr>symbol = ''TSLA'', name = ''Tesla Inc.'', sector = Some ''Automotive'', basePrice = 248.90, baseChange = 3.45, marketCap = ''792B''\<rparr>,
      \<lparr>symbol = ''AAPL'', name = ''Apple Inc.'', sector = Some ''Technology'', basePrice = 189.45, baseChange = 2.98, marketCap = ''2.9T''\<rparr>,
      \<lparr>symbol = ''GOOGL'', name = ''Alphabet Inc.'', sector = Some ''Technology'', basePrice = 142.30, baseChange = 2.67, marketCap = ''1.8T''\<rparr>,
      \<lparr>symbol = ''MSFT'', name = ''Microsoft Corporation'', sector = Some ''Technology'', basePrice = 415.20, baseChange = 2.45, marketCap = ''3.1T''\<rparr>,
      \<lparr>symbol = ''META'', name = ''Meta Platforms Inc.'', sector = Some ''Technology'', basePrice = 485.75, baseChange = 2.34, marketCap = ''1.2T''\<rparr>,
      \<lparr>symbol = ''AMZN'', name = ''Amazon.com Inc.'', sector = Some ''E-commerce'', basePrice = 178.25, baseChange = 2.12, marketCap = ''1.8T''\<rparr>,
      \<lparr>symbol = ''CRM'', name = ''Salesforce Inc.'', sector = Some ''Software'', basePrice = 285.40, baseChange = 1.98, marketCap = ''278B''\<rparr>,
      \<lparr>symbol = ''NFLX'', name = ''Netflix Inc.'', sector = Some ''Entertainment'', basePrice = 598.75, baseChange = 1.87, marketCap = ''258B''\<rparr>,
      \<lparr>symbol = ''ADBE'', name = ''Adobe Inc.'', sector = Some ''Software'', basePrice = 545.30, baseChange = 1.76, marketCap = ''245B''\<rparr>,
      \<lparr>symbol = ''PYPL'', name = ''PayPal Holdings Inc.'', sector = Some ''Fintech'', basePrice = 78.90, baseChange = 1.65, marketCap = ''87B''\<rparr>,
      \<lparr>symbol = ''INTC'', name = ''Intel Corporation'', sector = Some ''Semiconductors'', basePrice = 42.15, baseChange = 1.54, marketCap = ''171B''\<rparr>,
      \<lparr>symbol = ''CSCO'', name = ''Cisco Systems Inc.'', sector = Some ''Networking'', basePrice = 58.20, baseChange = 1.43, marketCap = ''237B''\<rparr>,
      \<lparr>symbol = ''ORCL'', name = ''Oracle Corporation'', sector = Some ''Database'', basePrice = 125.80, baseChange = 1.32, marketCap = ''354B''\<rparr>]"

definition getTimeBasedVariation :: "clock \<Rightarrow> real" where
  "getTimeBasedVariation c =
     (if hours c = 9 then 1.5
      else if hours c = 10 then 1.2
      else if hours c = 12 then 0.6
      else if hours c = 14 \<or> hours c = 15 then 1.1
      else if hours c = 15 \<and> minutes c \<ge> 30 then 1.4
      else if hours c < 9 \<or> hours c > 16 then 0.4
      else 1.0)"

definition getMarketBasedVariation :: "bool \<Rightarrow> bool \<Rightarrow> real" where
  "getMarketBasedVariation marketHours marketDay =
     (if marketHours \<and> marketDay then 1.3
      else if marketDay \<and> \<not> marketHours then 0.7
      else 0.5)"

text \<open>\<open>table[key] || 1.0\<close>; no entry of the two tables is zero.\<close>

definition multiplier :: "(string \<times> real) list \<Rightarrow> string \<Rightarrow> real" where
  "multiplier table key = (case map_of table key of Some m \<Rightarrow> m | None \<Rightarrow> 1.0)"

definition sectorMultipliers :: "(string \<times> real) list" where
  "sectorMultipliers =
     [(''Technology'', 1.4), (''Semiconductors'', 1.3), (''Software'', 1.2),
      (''Automotive'', 1.1), (''Entertainment'', 1.0), (''E-commerce'', 1.1),
      (''Fintech'', 0.9), (''Networking'', 0.8), (''Database'', 0.7)]"

definition getSectorVariation :: "string option \<Rightarrow> real" where
  "getSectorVariation sec = (case sec of None \<Rightarrow> 1.0 | Some s \<Rightarrow> multiplier sectorMultipliers s)"

definition volatilityMap :: "(string \<times> real) list" where
  "volatilityMap =
     [(''TSLA'', 1.5), (''NVDA'', 1.3), (''AMD'', 1.3), (''META'', 1.2), (''NFLX'', 1.2),
      (''AAPL'', 1.0), (''GOOGL'', 1.0), (''MSFT'', 0.9), (''AMZN'', 1.1), (''INTC'', 0.8),
      (''CSCO'', 0.7), (''ORCL'', 0.7)]"

definition getVolatilityVariation :: "string \<Rightarrow> real" where
  "getVolatilityVariation s = multiplier volatilityMap s"

text \<open>\<open>generateRealisticVolume\<close>, with its draw of \<open>Math.random()\<close> passed as \<open>r\<close>.\<close>

definition generateRealisticVolume :: "string \<Rightarrow> bool \<Rightarrow> real \<Rightarrow> real \<Rightarrow> real" where
  "generateRealisticVolume marketCapStr marketHours changePct r =
     (let baseVolume = (if includes_str marketCapStr ''T'' then 20000000
                        else if includes_str marketCapStr ''B''
                        then (if num_gt (parseFloat marketCapStr) 500 then 25000000
                              else if num_gt (parseFloat marketCapStr) 100 then 35000000
                              else 50000000)
                        else 10000000);
          v1 = (if marketHours then baseVolume * 1.5 else baseVolume);
          v2 = v1 * (1 + changePct / 100);
          v3 = v2 * (1 + (r - 0.5) * 0.6)
      in max 1000000 (real_of_int \<lfloor>v3\<rfloor>))"

text \<open>The callback of \<open>baseStocks.map\<close>, with its three draws in the order they are made.\<close>

definition liveQuote :: "clock \<Rightarrow> real \<Rightarrow> real \<Rightarrow> real \<Rightarrow> base_stock \<Rightarrow> quote" where
  "liveQuote c r1 r2 r3 st =
     (let timeVariation = getTimeBasedVariation c;
          marketVariation = getMarketBasedVariation (isMarketHours c) (isMarketDay c);
          sectorVariation = getSectorVariation (base_stock.sector st);
          volatilityVariation = getVolatilityVariation (base_stock.symbol st);
          totalVariation = (timeVariation + marketVariation + sectorVariation + volatilityVariation) / 4;
          priceVariation = (r1 - 0.5) * 30 * totalVariation;
          changeVariation = (r2 - 0.5) * 2 * totalVariation;
          newPrice = max 1 (basePrice st + priceVariation);
          newChange = max 0.1 (baseChange st + changeVariation)
      in \<lparr>quote.symbol = base_stock.symbol st,
          quote.name = base_stock.name st,
          price = newPrice,
          changePercent = newChange,
          volume = generateRealisticVolume (marketCap st) (isMarketHours c) newChange r3,
          quote.sector = base_stock.sector st,
          lastUpdate = now_ms c,
          source = ''enhanced_realistic''\<rparr>)"

text \<open>The \<open>i\<close>-th stock of a table uses the draws \<open>3i\<close>, \<open>3i + 1\<close> and \<open>3i + 2\<close>.\<close>

definition map_with_draws ::
  "(real \<Rightarrow> real \<Rightarrow> real \<Rightarrow> base_stock \<Rightarrow> quote) \<Rightarrow> (nat \<Rightarrow> real) \<Rightarrow> base_stock list \<Rightarrow> quote list" where
  "map_with_draws f rnd table =
     map (\<lambda>(i, st). f (rnd (3 * i)) (rnd (3 * i + 1)) (rnd (3 * i + 2)) st) (enumerate 0 table)"

definition generateLiveMarketData :: "clock \<Rightarrow> (nat \<Rightarrow> real) \<Rightarrow> quote list" where
  "generateLiveMarketData c rnd = map_with_draws (liveQuote c) rnd simplecors_baseStocks"

subsection \<open>Synthetic quotes of \<open>RealYahooFinanceService\<close>\<close>

text \<open>The tables of this service carry no market capitalisation.\<close>

definition yahoo_baseGainers :: "base_stock list" where
  "yahoo_baseGainers =
     [\<lparr>symbol = ''NVDA'', name = ''NVIDIA Corporation'', sector = Some ''Technology'', basePrice = 875, baseChange = 4.25, marketCap = []\<rparr>,
      \<lparr>symbol = ''AMD'', name = ''Advanced Micro Devices Inc.'', sector = Some ''Technology'', basePrice = 165, baseChange = 3.78, marketCap = []\<rparr>,
      \<lparr>symbol = ''TSLA'', name = ''Tesla Inc.'', sector = Some ''Automotive'', basePrice = 249, baseChange = 3.45, marketCap = []\<rparr>,
      \<lparr>symbol = ''AAPL'', name = ''Apple Inc.'', sector = Some ''Technology'', basePrice = 189, baseChange = 2.98, marketCap = []\<rparr>,
      \<lparr>symbol = ''GOOGL'', name = ''Alphabet Inc.'', sector = Some ''Technology'', basePrice = 142, baseChange = 2.67, marketCap = []\<rparr>,
      \<lparr>symbol = ''MSFT'', name = ''Microsoft Corporation'', sector = Some ''Technology'', basePrice = 415, baseChange = 2.45, marketCap = []\<rparr>,
      \<lparr>symbol = ''META'', name = ''Meta Platforms Inc.'', sector = Some ''Technology'', basePrice = 486, baseChange = 2.34, marketCap = []\<rparr>,
      \<lparr>symbol = ''AMZN'', name = ''Amazon.com Inc.'', sector = Some ''E-commerce'', basePrice = 178, baseChange = 2.12, marketCap = []\<rparr>,
      \<lparr>symbol = ''CRM'', name = ''Salesforce Inc.'', sector = Some ''Technology'', basePrice = 285, baseChange = 1.98, marketCap = []\<rparr>,
      \<lparr>symbol = ''NFLX'', name = ''Netflix Inc.'', sector = Some ''Entertainment'', basePrice = 599, baseChange = 1.87, marketCap = []\<rparr>,
      \<lparr>symbol = ''ADBE'', name = ''Adobe Inc.'', sector = Some ''Technology'', basePrice = 545, baseChange = 1.76, marketCap = []\<rparr>,
      \<lparr>symbol = ''PYPL'', name = ''PayPal Holdings Inc.'', sector = Some ''Fintech'', basePrice = 79, baseChange = 1.65, marketCap = []\<rparr>,
      \<lparr>symbol = ''INTC'', name = ''Intel Corporation'', sector = Some ''Technology'', basePrice = 42, baseChange = 1.54, marketCap = []\<rparr>,
      \<lparr>symbol = ''CSCO'', name = ''Cisco Systems Inc.'', sector = Some ''Technology'', basePrice = 58, baseChange = 1.43, marketCap = []\<rparr>,
      \<lparr>symbol = ''ORCL'', name = ''Oracle Corporation'', sector = Some ''Technology'', basePrice = 126, baseChange = 1.32, marketCap = []\<rparr>]"

definition enhancedQuote :: "clock \<Rightarrow> real \<Rightarrow> real \<Rightarrow> real \<Rightarrow> base_stock \<Rightarrow> quote" where
  "enhancedQuote c r1 r2 r3 st =
     (let isMarketHours = (hours c \<ge> 9 \<and> hours c \<le> 16);
          isWeekday = (day c \<ge> 1 \<and> day c \<le> 5);
          marketMultiplier = (if isMarketHours \<and> isWeekday then 1.2 else 0.8);
          timeVariation = sin (real (minutes c) / 60 * pi * 2) * 0.5;
          sectorMultiplier = (if base_stock.sector st = Some ''Technology'' then 1.3 else 1.0);
          priceVariation = (r1 - 0.5) * 20 * marketMultiplier * sectorMultiplier;
          changeVariation = (r2 - 0.5) * 1 * marketMultiplier + timeVariation;
          newPrice = max 1 (basePrice st + priceVariation);
          newChange = max 0.5 (baseChange st + changeVariation);
          baseVolume = (if basePrice st > 500 then 15000000
                        else if basePrice st > 100 then 30000000 else 50000000);
          volumeVariation = (r3 - 0.5) * baseVolume * 0.5
      in \<lparr>quote.symbol = base_stock.symbol st,
          quote.name = base_stock.name st,
          price = newPrice,
          changePercent = newChange,
          volume = max 1000000 (baseVolume + volumeVariation),
          quote.sector = base_stock.sector st,
          lastUpdate = now_ms c,
          source = ''enhanced_realistic''\<rparr>)"

definition generateEnhancedMockData :: "clock \<Rightarrow> (nat \<Rightarrow> real) \<Rightarrow> quote list" where
  "generateEnhancedMockData c rnd = map_with_draws (enhancedQuote c) rnd yahoo_baseGainers"

definition getEnhancedFallbackData :: "clock \<Rightarrow> (nat \<Rightarrow> real) \<Rightarrow> quote list" where
  "getEnhancedFallbackData c rnd = generateEnhancedMockData c rnd"

definition yahoo_fallbackGainers :: "base_stock list" where
  "yahoo_fallbackGainers =
     [\<lparr>symbol = ''NVDA'', name = ''NVIDIA Corporation'', sector = None, basePrice = 875, baseChange = 4.25, marketCap = []\<rparr>,
      \<lparr>symbol = ''AMD'', name = ''Advanced Micro Devices Inc.'', sector = None, basePrice = 165, baseChange = 3.78, marketCap = []\<rparr>,
      \<lparr>symbol = ''TSLA'', name = ''Tesla Inc.'', sector = None, basePrice = 249, baseChange = 3.45, marketCap = []\<rparr>,
      \<lparr>symbol = ''AAPL'', name = ''Apple Inc.'', sector = None, basePrice = 189, baseChange = 2.98, marketCap = []\<rparr>,
      \<lparr>symbol = ''GOOGL'', name = ''Alphabet Inc.'', sector = None, basePrice = 142, baseChange = 2.67, marketCap = []\<rparr>,
      \<lparr>symbol = ''MSFT'', name = ''Microsoft Corporation'', sector = None, basePrice = 415, baseChange = 2.45, marketCap = []\<rparr>,
      \<lparr>symbol = ''META'', name = ''Meta Platforms Inc.'', sector = None, basePrice = 486, baseChange = 2.34, marketCap = []\<rparr>,
      \<lparr>symbol = ''AMZN'', name = ''Amazon.com Inc.'', sector = None, basePrice = 178, baseChange = 2.12, marketCap = []\<rparr>,
      \<lparr>symbol = ''CRM'', name = ''Salesforce Inc.'', sector = None, basePrice = 285, baseChange = 1.98, marketCap = []\<rparr>,
      \<lparr>symbol = ''NFLX'', name = ''Netflix Inc.'', sector = None, basePrice = 599, baseChange = 1.87, marketCap = []\<rparr>]"

definition fallbackQuote :: "clock \<Rightarrow> real \<Rightarrow> real \<Rightarrow> real \<Rightarrow> base_stock \<Rightarrow> quote" where
  "fallbackQuote c r1 r2 r3 st =
     (let priceVariation = (r1 - 0.5) * 20;
          changeVariation = (r2 - 0.5) * 1;
          newPrice = max 1 (basePrice st + priceVariation);
          newChange = max 0.5 (baseChange st + changeVariation)
      in \<lparr>quote.symbol = base_stock.symbol st,
          quote.name = base_stock.name st,
          price = newPrice,
          changePercent = newChange,
          volume = real_of_int \<lfloor>r3 * 100000000\<rfloor> + 5000000,
          quote.sector = None,
          lastUpdate = now_ms c,
          source = ''fallback''\<rparr>)"

definition getFallbackData :: "clock \<Rightarrow> (nat \<Rightarrow> real) \<Rightarrow> quote list" where
  "getFallbackData c rnd = map_with_draws (fallbackQuote c) rnd yahoo_fallbackGainers"

subsection \<open>Live quotes of the two services\<close>






section \<open>Auxiliary notions for the statements\<close>

text \<open>A clock or a sequence of draws that gives the same reading at every call.\<close>

definition steady :: "'a \<Rightarrow> nat \<Rightarrow> 'a" where
  "steady x i = x"

text \<open>The scores of a result map, key by key in iteration order.\<close>

definition scores :: "(jsval, sentiment_entry) js_map \<Rightarrow> (jsval \<times> real) list" where
  "scores m = map (\<lambda>kv. (fst kv, score (snd kv))) m"






section \<open>Sample inputs\<close>

text \<open>Concrete inputs at which the statements below are evaluated.\<close>

definition sample_article :: "string \<Rightarrow> string \<Rightarrow> article" where
  "sample_article t s =
     \<lparr>article_id = JUndefined, article.title = Str t, article.description = [],
      article.source = Str s, article.publishedAt = 0, article.url = JUndefined,
      article.sentiment = JNum 0, article.category = ''corporate'', article.confidence = JNum 0\<rparr>"








text \<open>A Tuesday, 10:15 local time and in New York.\<close>

definition sample_clock :: clock where
  "sample_clock =
     \<lparr>now_ms = 1700000000000, hours = 10, minutes = 15, day = 2,
      et_hours = 10, et_minutes = 15, et_day = 2\<rparr>"

definition sample_stock :: stock where
  "sample_stock =
     \<lparr>stock.symbol = JStr ''NVDA'', change = JStr ''+5.20%'', stock.volume = JStr ''30.0M'',
      stock.sector = JStr ''Technology'', stock.marketCap = JStr ''2.1T'',
      stock.source = JStr ''yahoo_finance_realtime''\<rparr>"

text \<open>The same symbol with no \<open>change\<close> field.\<close>

definition broken_stock :: stock where
  "broken_stock =
     \<lparr>stock.symbol = JStr ''NVDA'', change = JUndefined, stock.volume = JStr ''30.0M'',
      stock.sector = JStr ''Technology'', stock.marketCap = JStr ''2.1T'',
      stock.source = JStr ''yahoo_finance_realtime''\<rparr>"

definition sample_finnhub_item :: finnhub_raw where
  "sample_finnhub_item =
     \<lparr>id_field = JNum 7, headline = Str ''Apple beats estimates'',
      finnhub_raw.summary = Str ''Strong growth'', finnhub_raw.source = Str ''Newswire'',
      datetime = Some 1700000000, finnhub_raw.url = JStr ''https://example.com/f''\<rparr>"



text \<open>The same text as \<open>sample_finnhub_item\<close> in an item that differs otherwise.\<close>

definition other_finnhub_item :: finnhub_raw where
  "other_finnhub_item =
     \<lparr>id_field = JUndefined, headline = Str ''Apple beats estimates'',
      finnhub_raw.summary = Str ''Strong growth'', finnhub_raw.source = Str ''Daily'',
      datetime = Some 1700003600, finnhub_raw.url = JStr ''https://example.com/g''\<rparr>"

text \<open>One minute after \<open>sample_clock\<close>.\<close>

definition later_clock :: clock where
  "later_clock =
     \<lparr>now_ms = 1700000060000, hours = 10, minutes = 16, day = 2,
      et_hours = 10, et_minutes = 16, et_day = 2\<rparr>"







section \<open>Properties of the caches\<close>

subsection \<open>Insertion-ordered map facts\<close>

lemma map_set_fresh_keys:
  "k \<notin> set (map_keys m) \<Longrightarrow> map_keys (map_set m k v) = map_keys m @ [k]"
  by (induction m) (auto simp: map_keys_def)

lemma map_set_lookup: "map_get (map_set m k v) k = Some v"
  by (induction m) (auto simp: map_get_def)

lemma map_delete_lookup: "map_get (map_delete m k) k = None"
  by (induction m) (auto simp: map_get_def map_delete_def)

lemma map_delete_first:
  assumes d: "distinct (map_keys m)" and f: "first_key m = Some k"
  shows "map_keys (map_delete m k) = tl (map_keys m)"
proof (cases m)
  case Nil
  with f show ?thesis by (simp add: first_key_def)
next
  case (Cons kv rest)
  from f Cons have k: "fst kv = k" by (simp add: first_key_def)
  from d Cons k have "k \<notin> fst ` set rest" by (auto simp: map_keys_def)
  then have "\<forall>x\<in>set rest. fst x \<noteq> k" by (metis imageI)
  then have "filter (\<lambda>kv. fst kv \<noteq> k) rest = rest" by (simp add: filter_id_conv)
  with Cons k show ?thesis by (simp add: map_keys_def map_delete_def)
qed

lemma capped_set_below:
  "\<not> map_size s \<ge> cap \<Longrightarrow> k \<notin> set (map_keys s) \<Longrightarrow>
   map_keys (capped_set cap t k d s) = map_keys s @ [k]"
  by (simp add: capped_set_def map_set_fresh_keys)

lemma capped_set_full:
  "map_size s \<ge> cap \<Longrightarrow> first_key s = Some fk \<Longrightarrow> k \<notin> set (map_keys (map_delete s fk)) \<Longrightarrow>
   map_keys (capped_set cap t k d s) = map_keys (map_delete s fk) @ [k]"
  by (simp add: capped_set_def map_set_fresh_keys)

lemma set_all_snoc:
  "set_all f (ins @ [(k, d, t)]) s = f t k d (set_all f ins s)"
  by (simp add: set_all_def)

lemma capped_fill:
  "distinct (map fst ins) \<Longrightarrow> int (length ins) \<le> cap \<Longrightarrow>
   map_keys (set_all (capped_set cap) ins []) = map fst ins"
proof (induction ins rule: rev_induct)
  case Nil
  then show ?case by (simp add: set_all_def map_keys_def)
next
  case (snoc x xs)
  obtain k d t where x: "x = (k, d, t)" by (cases x)
  from snoc have keys: "map_keys (set_all (capped_set cap) xs []) = map fst xs" by simp
  then have len: "length (set_all (capped_set cap) xs []) = length xs"
    by (metis length_map map_keys_def)
  from snoc.prems x have fresh: "k \<notin> set (map fst xs)" by simp
  from snoc.prems have "int (length xs) < cap" by simp
  with len have "\<not> map_size (set_all (capped_set cap) xs []) \<ge> cap"
    by (simp add: map_size_def)
  then have "map_keys (capped_set cap t k d (set_all (capped_set cap) xs [])) = map fst xs @ [k]"
    using keys fresh capped_set_below by metis
  then show ?case using x by (simp add: set_all_snoc)
qed

lemma capped_overflow:
  assumes d: "distinct (map fst ins)" and l: "int (length ins) = cap + 1" and c: "0 < cap"
  shows "map_keys (set_all (capped_set cap) ins []) = tl (map fst ins)"
proof -
  from l c have "ins \<noteq> []" by auto
  then obtain xs x where ins: "ins = xs @ [x]" by (metis rev_exhaust)
  obtain k dd t where x: "x = (k, dd, t)" by (cases x)
  let ?s = "set_all (capped_set cap) xs []"
  from d ins have dx: "distinct (map fst xs)" by simp
  from l ins have lx: "int (length xs) = cap" by simp
  with c have ne: "xs \<noteq> []" by auto
  have keys: "map_keys ?s = map fst xs" using capped_fill [OF dx] lx by simp
  then have len: "length ?s = length xs" by (metis length_map map_keys_def)
  with ne obtain kv rest where s: "?s = kv # rest" by (cases ?s) auto
  then have fk: "first_key ?s = Some (fst kv)" by (simp add: first_key_def)
  have dk: "distinct (map_keys ?s)" using keys dx by simp
  have del: "map_keys (map_delete ?s (fst kv)) = tl (map fst xs)"
    using map_delete_first [OF dk fk] keys by simp
  from d ins x have "k \<notin> set (map fst xs)" by simp
  then have fresh: "k \<notin> set (map_keys (map_delete ?s (fst kv)))"
    using del ne by (metis list.set_sel(2) map_is_Nil_conv)
  have full: "map_size ?s \<ge> cap" using len lx by (simp add: map_size_def)
  have "map_keys (capped_set cap t k dd ?s) = tl (map fst xs) @ [k]"
    using capped_set_full [OF full fk fresh] del by simp
  then show ?thesis using ins x ne by (simp add: set_all_snoc)
qed

lemma uncapped_keep:
  "distinct (map fst ins) \<Longrightarrow>
   map_keys (set_all realtime_setCached ins []) = map fst ins"
proof (induction ins rule: rev_induct)
  case Nil
  then show ?case by (simp add: set_all_def map_keys_def)
next
  case (snoc x xs)
  obtain k d t where x: "x = (k, d, t)" by (cases x)
  with snoc show ?case
    by (simp add: set_all_snoc realtime_setCached_def map_set_fresh_keys)
qed

lemma cache_set_capped: "cache_set = capped_set MAX_CACHE_SIZE"
  by (intro ext) (simp add: cache_set_def)

lemma yahoo_setCached_capped: "yahoo_setCached = capped_set yahoo_maxCacheSize"
  by (intro ext) (simp add: yahoo_setCached_def)

lemma simplecors_setCached_realtime: "simplecors_setCached = realtime_setCached"
  by (intro ext) (simp add: simplecors_setCached_def realtime_setCached_def)

subsection \<open>Expiry on read\<close>

text \<open>
  Claim C7. After \<open>cache.set(k, v)\<close> at time \<open>T\<close>, whatever the store held before, a
  \<open>cache.get(k)\<close> at a time \<open>t\<close> with \<open>t - T \<le> CACHE_DURATION\<close> returns exactly \<open>v\<close>
  and leaves the store as it is; at a time with \<open>t - T > CACHE_DURATION\<close> it returns
  \<open>null\<close> and the entry is gone from the store.
\<close>

theorem cache_ttl_round_trip:
  "(t - T \<le> CACHE_DURATION \<longrightarrow>
      cache_get t k (cache_set T k v store) = (Some v, cache_set T k v store)) \<and>
   (t - T > CACHE_DURATION \<longrightarrow>
      cache_get t k (cache_set T k v store) = (None, map_delete (cache_set T k v store) k) \<and>
      map_get (map_delete (cache_set T k v store) k) k = None)"
proof -
  have look: "map_get (cache_set T k v store) k = Some \<lparr>data = v, timestamp = T\<rparr>"
    by (simp add: cache_set_def capped_set_def Let_def map_set_lookup)
  show ?thesis
    by (simp add: cache_get_def look map_delete_lookup)
qed

text \<open>The law at the boundary: a hit at exactly five minutes, a miss one millisecond later.\<close>

theorem cache_ttl_round_trip_witness:
  "cache_get 300000 ''AAPL'' (cache_set 0 ''AAPL'' (7::nat) []) =
     (Some 7, cache_set 0 ''AAPL'' 7 []) \<and>
   cache_get 300001 ''AAPL'' (cache_set 0 ''AAPL'' (7::nat) []) = (None, [])"
  using cache_ttl_round_trip [of 300000 0 "''AAPL''" "7::nat" "[]"]
        cache_ttl_round_trip [of 300001 0 "''AAPL''" "7::nat" "[]"]
  by (simp add: CACHE_DURATION_def cache_set_def capped_set_def map_size_def MAX_CACHE_SIZE_def
      map_delete_def)

subsection \<open>Capacity\<close>

text \<open>
  Claim C6, as the code has it. Starting from an empty store, inserting
  \<open>MAX_CACHE_SIZE + 1 = 51\<close> distinct keys through \<open>cache.set\<close> of \<open>helpers.js\<close> or
  through \<open>RealYahooFinanceService.setCached\<close> leaves exactly the keys after the
  first-inserted one, in insertion order: the first key is evicted and no other. The
  caches of \<open>RealTimeGainersService\<close> and \<open>SimpleCorsService\<close> have no capacity bound:
  the same insertions leave every key in place.
\<close>

theorem capacity_eviction_by_service:
  assumes "distinct (map fst ins)" and "int (length ins) = MAX_CACHE_SIZE + 1"
  shows "map_keys (set_all cache_set ins []) = tl (map fst ins) \<and>
         map_keys (set_all yahoo_setCached ins []) = tl (map fst ins) \<and>
         map_keys (set_all realtime_setCached ins []) = map fst ins \<and>
         map_keys (set_all simplecors_setCached ins []) = map fst ins"
proof -
  have c: "0 < MAX_CACHE_SIZE" by (simp add: MAX_CACHE_SIZE_def)
  have y: "yahoo_maxCacheSize = MAX_CACHE_SIZE"
    by (simp add: MAX_CACHE_SIZE_def yahoo_maxCacheSize_def)
  show ?thesis
    using capped_overflow [OF assms c] uncapped_keep [OF assms(1)]
    by (simp add: cache_set_capped yahoo_setCached_capped y simplecors_setCached_realtime)
qed

text \<open>Keys \<open>0 \<dots> 50\<close> inserted in order: the bounded cache drops key 0, the unbounded one keeps it.\<close>

theorem capacity_eviction_by_service_witness:
  "map_keys (set_all cache_set (zip [0..<51] (replicate 51 (0::nat, 0::int))) []) = [1..<51] \<and>
   map_keys (set_all realtime_setCached (zip [0..<51] (replicate 51 (0::nat, 0::int))) []) = [0..<51]"
  using capacity_eviction_by_service [of "zip [0..<51] (replicate 51 (0::nat, 0::int))"]
  by (simp add: MAX_CACHE_SIZE_def)

text \<open>
  The capacity law does not hold for every cache instance: after 51 distinct insertions
  the cache of \<open>RealTimeGainersService\<close> holds 51 entries and its first-inserted key is
  still the first key.
\<close>

theorem realtime_cache_unbounded_counterexample:
  "first_key (set_all realtime_setCached (zip [0..<51] (replicate 51 (0::nat, 0::int))) []) = Some 0 \<and>
   map_size (set_all realtime_setCached (zip [0..<51] (replicate 51 (0::nat, 0::int))) []) = 51"
proof -
  let ?s = "set_all realtime_setCached (zip [0..<51] (replicate 51 (0::nat, 0::int))) []"
  have "distinct (map fst (zip [0..<51] (replicate 51 (0::nat, 0::int))))" by simp
  then have k: "map_keys ?s = [0..<51]" using uncapped_keep by fastforce
  have "[0..<51] = 0 # [1..<51]" by (simp add: upt_conv_Cons)
  with k obtain kv rest where s: "?s = kv # rest" and "fst kv = 0"
    by (auto simp: map_keys_def)
  then have "first_key ?s = Some 0" by (simp add: first_key_def)
  moreover have "length ?s = 51" using k by (metis length_map map_keys_def length_upt diff_zero)
  ultimately show ?thesis by (simp add: map_size_def)
qed

section \<open>Properties of the news service\<close>

subsection \<open>Deduplication\<close>

lemma dedup_from_idem: "dedup_from S (dedup_from S xs) = dedup_from S xs"
proof (induction xs arbitrary: S)
  case Nil
  show ?case by simp
next
  case (Cons a as)
  show ?case
  proof (cases "dedup_key a \<in> S")
    case True
    then show ?thesis using Cons.IH by simp
  next
    case False
    then show ?thesis using Cons.IH [of "insert (dedup_key a) S"] by simp
  qed
qed



lemmas key_defs = dedup_key_def normalizedTitle_def substring_def toLowerCase_def toLowerCase_char_def

text \<open>
  Claim C8. Deduplication is idempotent: for every list of articles,
  \<open>deduplicateArticles (deduplicateArticles xs) = deduplicateArticles xs\<close>.
\<close>

theorem deduplicate_idempotent:
  "deduplicateArticles (deduplicateArticles xs) = deduplicateArticles xs"
  by (simp add: deduplicateArticles_def dedup_from_idem)

text \<open>Two articles with one key, deduplicated twice.\<close>

theorem deduplicate_idempotent_witness:
  "deduplicateArticles
     (deduplicateArticles
        [sample_article ''Apple beats estimates'' ''Reuters'',
         sample_article ''Apple Beats Estimates'' ''Reuters'']) =
   [sample_article ''Apple beats estimates'' ''Reuters'']"
  using deduplicate_idempotent
    [of "[sample_article ''Apple beats estimates'' ''Reuters'',
          sample_article ''Apple Beats Estimates'' ''Reuters'']"]
  by (simp add: sample_article_def deduplicateArticles_def key_defs)




subsection \<open>The manifest\<close>





















section \<open>Properties of the gainers services\<close>

subsection \<open>More map facts\<close>

lemma map_set_lookup_other: "k' \<noteq> k \<Longrightarrow> map_get (map_set m k v) k' = map_get m k'"
  by (induction m) (auto simp: map_get_def)

lemma map_set_fst_image: "fst ` set (map_set m k v) = insert k (fst ` set m)"
proof (induction m)
  case Nil
  show ?case by simp
next
  case (Cons kv m)
  show ?case
  proof (cases "fst kv = k")
    case True
    then show ?thesis by (cases kv) auto
  next
    case False
    then have "map_set (kv # m) k v = kv # map_set m k v" by (cases kv) auto
    then show ?thesis using Cons.IH by auto
  qed
qed

lemma map_set_key_set: "set (map_keys (map_set m k v)) = insert k (set (map_keys m))"
  by (simp add: map_keys_def map_set_fst_image)

lemma map_set_distinct: "distinct (map_keys m) \<Longrightarrow> distinct (map_keys (map_set m k v))"
proof (induction m)
  case Nil
  show ?case by (simp add: map_keys_def)
next
  case (Cons kv m)
  then have d: "distinct (map_keys (map_set m k v))" by (simp add: map_keys_def)
  show ?case
  proof (cases "fst kv = k")
    case True
    then have "map_set (kv # m) k v = (k, v) # m" by (cases kv) auto
    with True Cons.prems show ?thesis by (simp add: map_keys_def)
  next
    case False
    then have e: "map_set (kv # m) k v = kv # map_set m k v" by (cases kv) auto
    from Cons.prems have "fst kv \<notin> set (map_keys m)" by (simp add: map_keys_def)
    with False have "fst kv \<notin> set (map_keys (map_set m k v))" by (simp add: map_set_key_set)
    with d e show ?thesis by (simp add: map_keys_def)
  qed
qed


subsection \<open>The loop of \<open>analyzeBulkSentiment\<close>\<close>

lemma bulk_loop_keys:
  "set (map_keys (bulk_loop body dflt i ss m)) = set (map_keys m) \<union> stock.symbol ` set ss"
  by (induction ss arbitrary: i m) (auto simp: map_set_key_set)

lemma bulk_loop_distinct:
  "distinct (map_keys m) \<Longrightarrow> distinct (map_keys (bulk_loop body dflt i ss m))"
  by (induction ss arbitrary: i m) (auto simp: map_set_distinct)

lemma bulk_loop_untouched:
  "k \<notin> stock.symbol ` set ss \<Longrightarrow> map_get (bulk_loop body dflt i ss m) k = map_get m k"
  by (induction ss arbitrary: i m) (auto simp: map_set_lookup_other)

lemma bulk_loop_append:
  "bulk_loop body dflt i (xs @ ys) m = bulk_loop body dflt (i + length xs) ys (bulk_loop body dflt i xs m)"
  by (induction xs arbitrary: i m) auto

lemma bulk_loop_last_write:
  assumes "stock.symbol s \<notin> stock.symbol ` set post"
  shows "map_get (bulk_loop body dflt i (pre @ s # post) m) (stock.symbol s) =
           Some (case body (i + length pre) s of Inr e \<Rightarrow> e | Inl err \<Rightarrow> dflt (i + length pre))"
  using assms by (simp add: bulk_loop_append bulk_loop_untouched map_set_lookup)


lemma scores_map_set:
  "scores m = scores m' \<Longrightarrow> score v = score v' \<Longrightarrow> scores (map_set m k v) = scores (map_set m' k v')"
proof (induction m arbitrary: m')
  case Nil
  then show ?case by (simp add: scores_def)
next
  case (Cons kv m)
  then obtain kv' m2 where m': "m' = kv' # m2" by (cases m') (auto simp: scores_def)
  with Cons.prems have "fst kv = fst kv'" "score (snd kv) = score (snd kv')" "scores m = scores m2"
    by (auto simp: scores_def)
  then have h: "fst kv = fst kv'" "score (snd kv) = score (snd kv')" "scores m = scores m2" by auto
  have ih: "scores (map_set m k v) = scores (map_set m2 k v')"
    using Cons.IH [OF h(3) Cons.prems(2)] .
  show ?case
  proof (cases "fst kv = k")
    case True
    then have "map_set (kv # m) k v = (k, v) # m" "map_set (kv' # m2) k v' = (k, v') # m2"
      using h(1) by (cases kv; cases kv'; auto)+
    then show ?thesis using h(3) Cons.prems(2) m' by (simp add: scores_def)
  next
    case False
    then have "map_set (kv # m) k v = kv # map_set m k v" "map_set (kv' # m2) k v' = kv' # map_set m2 k v'"
      using h(1) by (cases kv; cases kv'; auto)+
    then show ?thesis using ih h(1,2) m' by (simp add: scores_def)
  qed
qed

lemma bulk_loop_scores:
  assumes "\<And>j s. (case body j s of Inr e \<Rightarrow> score e | Inl err \<Rightarrow> score (dflt j)) =
                  (case body' j s of Inr e \<Rightarrow> score e | Inl err \<Rightarrow> score (dflt' j))"
  shows "scores m = scores m' \<Longrightarrow>
         scores (bulk_loop body dflt i ss m) = scores (bulk_loop body' dflt' i ss m')"
proof (induction ss arbitrary: i m m')
  case Nil
  then show ?case by simp
next
  case (Cons s ss)
  have "score (case body i s of Inr e \<Rightarrow> e | Inl err \<Rightarrow> dflt i) =
        score (case body' i s of Inr e \<Rightarrow> e | Inl err \<Rightarrow> dflt' i)"
    using assms [of i s] by (cases "body i s"; cases "body' i s") auto
  then have "scores (map_set m (stock.symbol s) (case body i s of Inr e \<Rightarrow> e | Inl err \<Rightarrow> dflt i)) =
             scores (map_set m' (stock.symbol s) (case body' i s of Inr e \<Rightarrow> e | Inl err \<Rightarrow> dflt' i))"
    using Cons.prems by (rule scores_map_set [rotated])
  then show ?case using Cons.IH by simp
qed

subsection \<open>Bounds\<close>

lemma ensure_bounds_range: "- 1 \<le> ensure_bounds s \<and> ensure_bounds s \<le> 1"
  by (simp add: ensure_bounds_def)










subsection \<open>Failure isolation in \<open>analyzeBulkSentiment\<close>\<close>

lemma bulk_loop_isolates:
  "distinct (map_keys (bulk_loop body dflt 0 stocks [])) \<and>
   set (map_keys (bulk_loop body dflt 0 stocks [])) = stock.symbol ` set stocks \<and>
   (\<forall>pre s post.
      stocks = pre @ s # post \<and> stock.symbol s \<notin> stock.symbol ` set post \<and>
      (\<exists>e. body (length pre) s = Inl e) \<longrightarrow>
      map_get (bulk_loop body dflt 0 stocks []) (stock.symbol s) = Some (dflt (length pre)))"
proof -
  have d: "distinct (map_keys (bulk_loop body dflt 0 stocks []))"
    by (rule bulk_loop_distinct) (simp add: map_keys_def)
  have k: "set (map_keys (bulk_loop body dflt 0 stocks [])) = stock.symbol ` set stocks"
    using bulk_loop_keys [of body dflt 0 stocks "[]"] by (simp add: map_keys_def)
  have l: "map_get (bulk_loop body dflt 0 stocks []) (stock.symbol s) = Some (dflt (length pre))"
    if "stocks = pre @ s # post" "stock.symbol s \<notin> stock.symbol ` set post"
       "body (length pre) s = Inl e" for pre s post e
    using that bulk_loop_last_write [of s post body dflt 0 pre "[]"] by simp
  from d k l show ?thesis by blast
qed

text \<open>
  Claim C9, as the code has it, for the three services. The loop has no path that
  throws: the result is a map with exactly one entry per distinct input symbol. When the
  \<open>try\<close> body throws on a stock, the entry written for it is the default neutral entry
  (score 0, label \<open>Neutral\<close>, confidence 50), and this is the symbol's entry in the
  result when no later stock of the list has the same symbol.
\<close>

theorem bulk_sentiment_isolates_failures:
  "(distinct (map_keys (realtime_analyzeBulkSentiment clk stocks)) \<and>
    set (map_keys (realtime_analyzeBulkSentiment clk stocks)) = stock.symbol ` set stocks \<and>
    (\<forall>pre s post.
       stocks = pre @ s # post \<and> stock.symbol s \<notin> stock.symbol ` set post \<and>
       (\<exists>e. realtime_body (clk (length pre)) s = Inl e) \<longrightarrow>
       map_get (realtime_analyzeBulkSentiment clk stocks) (stock.symbol s) =
         Some (default_entry (now_ms (clk (length pre)))))) \<and>
   (distinct (map_keys (simplecors_analyzeBulkSentiment clk stocks)) \<and>
    set (map_keys (simplecors_analyzeBulkSentiment clk stocks)) = stock.symbol ` set stocks \<and>
    (\<forall>pre s post.
       stocks = pre @ s # post \<and> stock.symbol s \<notin> stock.symbol ` set post \<and>
       (\<exists>e. simplecors_body (clk (length pre)) s = Inl e) \<longrightarrow>
       map_get (simplecors_analyzeBulkSentiment clk stocks) (stock.symbol s) =
         Some (default_entry (now_ms (clk (length pre)))))) \<and>
   (distinct (map_keys (yahoo_analyzeBulkSentiment clk rnd stocks)) \<and>
    set (map_keys (yahoo_analyzeBulkSentiment clk rnd stocks)) = stock.symbol ` set stocks \<and>
    (\<forall>pre s post.
       stocks = pre @ s # post \<and> stock.symbol s \<notin> stock.symbol ` set post \<and>
       (\<exists>e. yahoo_body (clk (length pre)) (rnd (length pre)) s = Inl e) \<longrightarrow>
       map_get (yahoo_analyzeBulkSentiment clk rnd stocks) (stock.symbol s) =
         Some (default_entry (now_ms (clk (length pre)))))) \<and>
   score (default_entry t) = 0 \<and> label (default_entry t) = ''Neutral'' \<and>
   confidence (default_entry t) = 50"
proof -
  have r: "?thesis \<longleftrightarrow> True"
    unfolding realtime_analyzeBulkSentiment_def simplecors_analyzeBulkSentiment_def
      yahoo_analyzeBulkSentiment_def
    using bulk_loop_isolates [of "\<lambda>i. realtime_body (clk i)" "\<lambda>i. default_entry (now_ms (clk i))" stocks]
      bulk_loop_isolates [of "\<lambda>i. simplecors_body (clk i)" "\<lambda>i. default_entry (now_ms (clk i))" stocks]
      bulk_loop_isolates [of "\<lambda>i. yahoo_body (clk i) (rnd i)" "\<lambda>i. default_entry (now_ms (clk i))" stocks]
    by (simp add: default_entry_def)
  then show ?thesis by simp
qed

lemmas parse_defs = parse_change_def parseFloat_def parse_sign_def parse_fraction_def
  parse_exponent_def is_space_def is_digit_def digits_val_def digit_val_def
  volume_of_string_def keepDigitsAndDots_def num_ge_def num_gt_def

lemma realtime_body_sample:
  "realtime_body sample_clock sample_stock =
     Inr \<lparr>score = 0.7525, label = ''Positive'', confidence = 75.25,
          lastUpdate = 1700000000000, error_flag = False\<rparr>"
  by (simp add: realtime_body_def sample_clock_def sample_stock_def parse_defs
      calculateRealTimeSentiment_def realtime_parseVolume_def bonus_def realtime_sourceBonus_def
      getRealTimeMarketContext_def ensure_bounds_def scored_entry_def getSentimentLabel_def)

lemma realtime_body_broken:
  "realtime_body c broken_stock = Inl (TypeError ''Cannot read properties of undefined'')"
  by (simp add: realtime_body_def broken_stock_def parse_change_def)

text \<open>A stock without \<open>change\<close> after a well-formed one of the same symbol: the default entry stands.\<close>

theorem bulk_sentiment_isolates_failures_witness:
  "map_keys (realtime_analyzeBulkSentiment (steady sample_clock) [sample_stock, broken_stock]) =
     [JStr ''NVDA''] \<and>
   map_get (realtime_analyzeBulkSentiment (steady sample_clock) [sample_stock, broken_stock])
     (JStr ''NVDA'') = Some (default_entry 1700000000000)"
proof -
  have s: "stock.symbol broken_stock = JStr ''NVDA''" "stock.symbol sample_stock = JStr ''NVDA''"
    by (simp_all add: broken_stock_def sample_stock_def)
  note isolate = conjunct2 [OF conjunct2 [OF conjunct1
      [OF bulk_sentiment_isolates_failures [of "steady sample_clock" "[sample_stock, broken_stock]"]]]]
  have "[sample_stock, broken_stock] = [sample_stock] @ broken_stock # [] \<and>
        stock.symbol broken_stock \<notin> stock.symbol ` set [] \<and>
        (\<exists>e. realtime_body (steady sample_clock (length [sample_stock])) broken_stock = Inl e)"
    by (simp add: realtime_body_broken)
  with isolate
  have "map_get (realtime_analyzeBulkSentiment (steady sample_clock) [sample_stock, broken_stock])
          (stock.symbol broken_stock) = Some (default_entry (now_ms (steady sample_clock (length [sample_stock]))))"
    by blast
  then have g: "map_get (realtime_analyzeBulkSentiment (steady sample_clock) [sample_stock, broken_stock])
          (JStr ''NVDA'') = Some (default_entry 1700000000000)"
    by (simp add: s steady_def sample_clock_def)
  have "map_keys (realtime_analyzeBulkSentiment (steady sample_clock) [sample_stock, broken_stock]) =
     [JStr ''NVDA'']"
    by (simp add: realtime_analyzeBulkSentiment_def s map_keys_def)
  with g show ?thesis by simp
qed

text \<open>
  In the other order the claim fails: processing the first stock throws, and the entry of
  its symbol in the result is the score of the later stock, not the default.
\<close>

theorem later_duplicate_overwrites_default_counterexample:
  "realtime_body (steady sample_clock 0) broken_stock =
     Inl (TypeError ''Cannot read properties of undefined'') \<and>
   map_get (realtime_analyzeBulkSentiment (steady sample_clock) [broken_stock, sample_stock])
     (stock.symbol broken_stock) =
     Some \<lparr>score = 0.7525, label = ''Positive'', confidence = 75.25,
           lastUpdate = 1700000000000, error_flag = False\<rparr>"
proof -
  have s: "stock.symbol broken_stock = JStr ''NVDA''" "stock.symbol sample_stock = JStr ''NVDA''"
    by (simp_all add: broken_stock_def sample_stock_def)
  show ?thesis
    by (simp add: realtime_analyzeBulkSentiment_def s steady_def realtime_body_sample
        realtime_body_broken map_get_def)
qed

subsection \<open>What the scores depend on\<close>

lemma realtime_body_score:
  "getRealTimeMarketContext c = getRealTimeMarketContext c' \<Longrightarrow>
   (case realtime_body c s of Inr e \<Rightarrow> score e | Inl err \<Rightarrow> score (default_entry t)) =
   (case realtime_body c' s of Inr e \<Rightarrow> score e | Inl err \<Rightarrow> score (default_entry t'))"
  by (simp add: realtime_body_def scored_entry_def default_entry_def split: sum.splits)

lemma simplecors_body_score:
  "getMarketSentimentContext c = getMarketSentimentContext c' \<Longrightarrow>
   (case simplecors_body c s of Inr e \<Rightarrow> score e | Inl err \<Rightarrow> score (default_entry t)) =
   (case simplecors_body c' s of Inr e \<Rightarrow> score e | Inl err \<Rightarrow> score (default_entry t'))"
  by (simp add: simplecors_body_def scored_entry_def default_entry_def split: sum.splits)

lemma yahoo_body_score:
  "getMarketSentiment c r = getMarketSentiment c' r' \<Longrightarrow>
   (case yahoo_body c r s of Inr e \<Rightarrow> score e | Inl err \<Rightarrow> score (default_entry t)) =
   (case yahoo_body c' r' s of Inr e \<Rightarrow> score e | Inl err \<Rightarrow> score (default_entry t'))"
  by (simp add: yahoo_body_def scored_entry_def default_entry_def split: sum.splits)

lemma realtime_scores_context:
  assumes "\<forall>i. getRealTimeMarketContext (clk i) = getRealTimeMarketContext (clk' i)"
  shows "scores (realtime_analyzeBulkSentiment clk stocks) =
         scores (realtime_analyzeBulkSentiment clk' stocks)"
  unfolding realtime_analyzeBulkSentiment_def
  by (rule bulk_loop_scores) (use assms realtime_body_score in auto)

lemma simplecors_scores_context:
  assumes "\<forall>i. getMarketSentimentContext (clk i) = getMarketSentimentContext (clk' i)"
  shows "scores (simplecors_analyzeBulkSentiment clk stocks) =
         scores (simplecors_analyzeBulkSentiment clk' stocks)"
  unfolding simplecors_analyzeBulkSentiment_def
  by (rule bulk_loop_scores) (use assms simplecors_body_score in auto)

lemma yahoo_scores_context:
  assumes "\<forall>i. getMarketSentiment (clk i) (rnd i) = getMarketSentiment (clk' i) (rnd' i)"
  shows "scores (yahoo_analyzeBulkSentiment clk rnd stocks) =
         scores (yahoo_analyzeBulkSentiment clk' rnd' stocks)"
  unfolding yahoo_analyzeBulkSentiment_def
  by (rule bulk_loop_scores) (use assms yahoo_body_score in auto)

lemma finnhub_sentiment_text:
  "finnhub_article i a = Inr x \<Longrightarrow>
   article.sentiment x = JNum (calculateSentiment (template (headline a) @ '' '' @ or_empty (finnhub_raw.summary a)))"
  by (auto simp: finnhub_article_def split: option.splits)

text \<open>
  Claim C4, as the code has it. The text score is a function of the text alone: two
  Finnhub items with the same headline and summary get the same sentiment, whatever
  their other fields and positions. The metric-based score that \<open>analyzeBulkSentiment\<close>
  stores is a function of the stock and of the market-context term, which is read from
  the clock and, in \<open>RealYahooFinanceService\<close>, from a draw of \<open>Math.random()\<close>: two runs
  on the same stocks store the same scores whenever their context terms agree.
\<close>

theorem scores_determined_by_input_and_context:
  "(headline a = headline b \<and> finnhub_raw.summary a = finnhub_raw.summary b \<and>
    finnhub_article i a = Inr x \<and> finnhub_article j b = Inr y \<longrightarrow>
    article.sentiment x = article.sentiment y) \<and>
   ((\<forall>i. getRealTimeMarketContext (clk i) = getRealTimeMarketContext (clk' i)) \<longrightarrow>
    scores (realtime_analyzeBulkSentiment clk stocks) =
    scores (realtime_analyzeBulkSentiment clk' stocks)) \<and>
   ((\<forall>i. getMarketSentimentContext (clk i) = getMarketSentimentContext (clk' i)) \<longrightarrow>
    scores (simplecors_analyzeBulkSentiment clk stocks) =
    scores (simplecors_analyzeBulkSentiment clk' stocks)) \<and>
   ((\<forall>i. getMarketSentiment (clk i) (rnd i) = getMarketSentiment (clk' i) (rnd' i)) \<longrightarrow>
    scores (yahoo_analyzeBulkSentiment clk rnd stocks) =
    scores (yahoo_analyzeBulkSentiment clk' rnd' stocks))"
proof -
  have t: "headline a = headline b \<and> finnhub_raw.summary a = finnhub_raw.summary b \<and>
    finnhub_article i a = Inr x \<and> finnhub_article j b = Inr y \<longrightarrow>
    article.sentiment x = article.sentiment y"
    by (auto dest!: finnhub_sentiment_text)
  show ?thesis
    using t realtime_scores_context simplecors_scores_context yahoo_scores_context by blast
qed

text \<open>
  Runs one minute apart within the same market hour, and the same text in two different
  Finnhub items.
\<close>

theorem scores_determined_by_input_and_context_witness:
  "article.sentiment (projr (finnhub_article 0 sample_finnhub_item)) =
     article.sentiment (projr (finnhub_article 3 other_finnhub_item)) \<and>
   scores (realtime_analyzeBulkSentiment (steady sample_clock) [sample_stock]) =
     scores (realtime_analyzeBulkSentiment (steady later_clock) [sample_stock]) \<and>
   scores (simplecors_analyzeBulkSentiment (steady sample_clock) [sample_stock]) =
     scores (simplecors_analyzeBulkSentiment (steady later_clock) [sample_stock]) \<and>
   scores (yahoo_analyzeBulkSentiment (steady sample_clock) (steady 0.25) [sample_stock]) =
     scores (yahoo_analyzeBulkSentiment (steady later_clock) (steady 0.25) [sample_stock])"
proof -
  have f: "finnhub_article 0 sample_finnhub_item = Inr (projr (finnhub_article 0 sample_finnhub_item))"
    "finnhub_article 3 other_finnhub_item = Inr (projr (finnhub_article 3 other_finnhub_item))"
    by (simp_all add: finnhub_article_def sample_finnhub_item_def other_finnhub_item_def)
  have t: "headline sample_finnhub_item = headline other_finnhub_item"
    "finnhub_raw.summary sample_finnhub_item = finnhub_raw.summary other_finnhub_item"
    by (simp_all add: sample_finnhub_item_def other_finnhub_item_def)
  have c1: "\<forall>i. getRealTimeMarketContext (steady sample_clock i) =
                 getRealTimeMarketContext (steady later_clock i)"
    by (simp add: steady_def getRealTimeMarketContext_def sample_clock_def later_clock_def)
  have c2: "\<forall>i. getMarketSentimentContext (steady sample_clock i) =
                 getMarketSentimentContext (steady later_clock i)"
    by (simp add: steady_def getMarketSentimentContext_def isMarketHours_def isMarketDay_def
        sample_clock_def later_clock_def)
  have c3: "\<forall>i. getMarketSentiment (steady sample_clock i) (steady 0.25 i) =
                 getMarketSentiment (steady later_clock i) (steady 0.25 i)"
    by (simp add: steady_def getMarketSentiment_def sample_clock_def later_clock_def)
  show ?thesis
    using scores_determined_by_input_and_context
      [of sample_finnhub_item other_finnhub_item 0
          "projr (finnhub_article 0 sample_finnhub_item)" 3
          "projr (finnhub_article 3 other_finnhub_item)"
          "steady sample_clock" "steady later_clock" "[sample_stock]"
          "steady 0.25" "steady 0.25"]
      f t c1 c2 c3
    by blast
qed

lemma yahoo_body_sample:
  "yahoo_body sample_clock r sample_stock =
     Inr (scored_entry (ensure_bounds (0.8 + (0.1 + (r - 0.5) * 0.3) * 0.2)) 1700000000000)"
  by (simp add: yahoo_body_def calculateSentimentScore_def sample_stock_def sample_clock_def
      parseVolume_def parse_defs getMarketSentiment_def)

text \<open>
  The metric-based score is not a function of the metrics alone: the same stock at the
  same clock reading scores 0.79 when \<open>Math.random()\<close> returns 0 and 0.844 when it
  returns 0.9.
\<close>

theorem random_context_changes_score_counterexample:
  "scores (yahoo_analyzeBulkSentiment (steady sample_clock) (steady 0) [sample_stock]) =
     [(JStr ''NVDA'', 0.79)] \<and>
   scores (yahoo_analyzeBulkSentiment (steady sample_clock) (steady 0.9) [sample_stock]) =
     [(JStr ''NVDA'', 0.844)]"
proof -
  have s: "stock.symbol sample_stock = JStr ''NVDA''" by (simp add: sample_stock_def)
  show ?thesis
    by (simp add: yahoo_analyzeBulkSentiment_def scores_def steady_def yahoo_body_sample s
        ensure_bounds_def scored_entry_def)
qed

subsection \<open>Synthetic quotes\<close>

lemma generateRealisticVolume_floor: "generateRealisticVolume m h p r \<ge> 1000000"
  unfolding generateRealisticVolume_def Let_def by (rule max.cobounded1)

lemma liveQuote_fields:
  "price (liveQuote c r1 r2 r3 st) =
     max 1 (basePrice st + (r1 - 0.5) * 30 *
       ((getTimeBasedVariation c + getMarketBasedVariation (isMarketHours c) (isMarketDay c) +
         getSectorVariation (base_stock.sector st) + getVolatilityVariation (base_stock.symbol st)) / 4))"
  "changePercent (liveQuote c r1 r2 r3 st) =
     max 0.1 (baseChange st + (r2 - 0.5) * 2 *
       ((getTimeBasedVariation c + getMarketBasedVariation (isMarketHours c) (isMarketDay c) +
         getSectorVariation (base_stock.sector st) + getVolatilityVariation (base_stock.symbol st)) / 4))"
  "quote.volume (liveQuote c r1 r2 r3 st) =
     generateRealisticVolume (marketCap st) (isMarketHours c) (changePercent (liveQuote c r1 r2 r3 st)) r3"
  "quote.source (liveQuote c r1 r2 r3 st) = ''enhanced_realistic''"
  unfolding liveQuote_def Let_def by simp_all

lemma liveQuote_floor:
  "price (liveQuote c r1 r2 r3 st) \<ge> 1 \<and> changePercent (liveQuote c r1 r2 r3 st) \<ge> 0.1 \<and>
   quote.volume (liveQuote c r1 r2 r3 st) \<ge> 1000000"
  using generateRealisticVolume_floor by (simp add: liveQuote_fields)

lemma enhancedQuote_floor:
  "price (enhancedQuote c r1 r2 r3 st) \<ge> 1 \<and> changePercent (enhancedQuote c r1 r2 r3 st) \<ge> 0.5"
  unfolding enhancedQuote_def Let_def by simp


lemma fallbackQuote_floor:
  "price (fallbackQuote c r1 r2 r3 st) \<ge> 1 \<and> changePercent (fallbackQuote c r1 r2 r3 st) \<ge> 0.5"
  unfolding fallbackQuote_def Let_def by simp


lemma map_with_draws_all:
  assumes "\<And>r1 r2 r3 st. P (f r1 r2 r3 st)"
  shows "\<forall>q\<in>set (map_with_draws f rnd table). P q"
proof
  fix q
  assume "q \<in> set (map_with_draws f rnd table)"
  then obtain i st where "q = f (rnd (3 * i)) (rnd (3 * i + 1)) (rnd (3 * i + 2)) st"
    unfolding map_with_draws_def by auto
  then show "P q" using assms by simp
qed

lemma live_data_floor:
  "\<forall>q\<in>set (generateLiveMarketData c rnd).
      price q \<ge> 1 \<and> changePercent q \<ge> 0.1 \<and> quote.volume q \<ge> 1000000"
  unfolding generateLiveMarketData_def by (rule map_with_draws_all) (rule liveQuote_floor)

lemma enhanced_data_floor:
  "\<forall>q\<in>set (generateEnhancedMockData c rnd). price q \<ge> 1 \<and> changePercent q \<ge> 0.5"
  unfolding generateEnhancedMockData_def by (rule map_with_draws_all) (rule enhancedQuote_floor)

lemma fallback_data_floor:
  "\<forall>q\<in>set (getFallbackData c rnd). price q \<ge> 1 \<and> changePercent q \<ge> 0.5"
  unfolding getFallbackData_def by (rule map_with_draws_all) (rule fallbackQuote_floor)

text \<open>
  Claim C10. Every synthetic quote is a gainer by construction, whatever the clock and
  the random draws: each quote of \<open>generateLiveMarketData\<close> has price at least 1,
  percent change at least 0.1 and volume at least 1,000,000; each quote of
  \<open>generateEnhancedMockData\<close> and of \<open>getFallbackData\<close> has price at least 1 and
  percent change at least 0.5. So no synthetic quote has a zero or negative percent
  change.
\<close>

theorem synthetic_quotes_are_gainers:
  "(\<forall>q\<in>set (generateLiveMarketData c rnd).
      price q \<ge> 1 \<and> changePercent q \<ge> 0.1 \<and> quote.volume q \<ge> 1000000) \<and>
   (\<forall>q\<in>set (generateEnhancedMockData c rnd). price q \<ge> 1 \<and> changePercent q \<ge> 0.5) \<and>
   (\<forall>q\<in>set (getFallbackData c rnd). price q \<ge> 1 \<and> changePercent q \<ge> 0.5) \<and>
   (\<forall>q\<in>set (generateLiveMarketData c rnd) \<union> set (generateEnhancedMockData c rnd) \<union>
          set (getFallbackData c rnd). changePercent q > 0)"
proof (intro conjI)
  show "\<forall>q\<in>set (generateLiveMarketData c rnd).
      price q \<ge> 1 \<and> changePercent q \<ge> 0.1 \<and> quote.volume q \<ge> 1000000"
    by (rule live_data_floor)
  show "\<forall>q\<in>set (generateEnhancedMockData c rnd). price q \<ge> 1 \<and> changePercent q \<ge> 0.5"
    by (rule enhanced_data_floor)
  show "\<forall>q\<in>set (getFallbackData c rnd). price q \<ge> 1 \<and> changePercent q \<ge> 0.5"
    by (rule fallback_data_floor)
  show "\<forall>q\<in>set (generateLiveMarketData c rnd) \<union> set (generateEnhancedMockData c rnd) \<union>
          set (getFallbackData c rnd). changePercent q > 0"
  proof
    fix q
    assume "q \<in> set (generateLiveMarketData c rnd) \<union> set (generateEnhancedMockData c rnd) \<union>
          set (getFallbackData c rnd)"
    then consider (live) "q \<in> set (generateLiveMarketData c rnd)"
      | (enhanced) "q \<in> set (generateEnhancedMockData c rnd)"
      | (fallback) "q \<in> set (getFallbackData c rnd)"
      by auto
    then show "changePercent q > 0"
    proof cases
      case live
      then have "changePercent q \<ge> 0.1" using live_data_floor [of c rnd] by simp
      then show ?thesis by linarith
    next
      case enhanced
      then have "changePercent q \<ge> 0.5" using enhanced_data_floor [of c rnd] by simp
      then show ?thesis by linarith
    next
      case fallback
      then have "changePercent q \<ge> 0.5" using fallback_data_floor [of c rnd] by simp
      then show ?thesis by linarith
    qed
  qed
qed

lemma generators_nonempty:
  "generateLiveMarketData c rnd \<noteq> []" "generateEnhancedMockData c rnd \<noteq> []"
  "getFallbackData c rnd \<noteq> []"
  by (simp_all add: generateLiveMarketData_def generateEnhancedMockData_def getFallbackData_def
      map_with_draws_def simplecors_baseStocks_def yahoo_baseGainers_def yahoo_fallbackGainers_def
      enumerate_eq_zip)

text \<open>The first quote of each generator when every draw is 0, the lowest a draw can be.\<close>

theorem synthetic_quotes_are_gainers_witness:
  "price (hd (generateLiveMarketData sample_clock (steady 0))) \<ge> 1 \<and>
   changePercent (hd (generateLiveMarketData sample_clock (steady 0))) \<ge> 0.1 \<and>
   quote.volume (hd (generateLiveMarketData sample_clock (steady 0))) \<ge> 1000000 \<and>
   price (hd (generateEnhancedMockData sample_clock (steady 0))) \<ge> 1 \<and>
   changePercent (hd (generateEnhancedMockData sample_clock (steady 0))) \<ge> 0.5 \<and>
   price (hd (getFallbackData sample_clock (steady 0))) \<ge> 1 \<and>
   changePercent (hd (getFallbackData sample_clock (steady 0))) \<ge> 0.5 \<and>
   changePercent (hd (getFallbackData sample_clock (steady 0))) > 0"
proof -
  note t = synthetic_quotes_are_gainers [of sample_clock "steady 0"]
  have m1: "hd (generateLiveMarketData sample_clock (steady 0)) \<in>
              set (generateLiveMarketData sample_clock (steady 0))"
    using generators_nonempty(1) by simp
  have m2: "hd (generateEnhancedMockData sample_clock (steady 0)) \<in>
              set (generateEnhancedMockData sample_clock (steady 0))"
    using generators_nonempty(2) by simp
  have m3: "hd (getFallbackData sample_clock (steady 0)) \<in>
              set (getFallbackData sample_clock (steady 0))"
    using generators_nonempty(3) by simp
  note a = t [THEN conjunct1, THEN bspec, OF m1]
  note b = t [THEN conjunct2, THEN conjunct1, THEN bspec, OF m2]
  note d = t [THEN conjunct2, THEN conjunct2, THEN conjunct1, THEN bspec, OF m3]
  note e = t [THEN conjunct2, THEN conjunct2, THEN conjunct2, THEN bspec, OF UnI2 [OF m3]]
  from a b d e show ?thesis by simp
qed



section \<open>Properties across the services\<close>

subsection \<open>Score bounds\<close>












subsection \<open>Provenance\<close>



end
